theory Spec2Isabelle
  imports Main "HOL-Library.Sublist"
begin

section \<open>JavaScript values and the built-ins that index.js uses\<close>

text \<open>
  index.js works on parsed JSON. A value is one of the JSON shapes, or \<open>undefined\<close>
  (what reading an absent property yields), or a native object or function that is not
  JSON data (\<open>JNative\<close>: what a plain object inherits from \<open>Object.prototype\<close>).
  Strings are lists of characters, one \<open>char\<close> per code unit. An object is the list of
  its own properties, each name once.

  The body reaches the handler parsed, and index.js does no arithmetic on the numbers
  of a report: it tests them (ToBoolean), compares them by \<open>===\<close> and converts them to
  strings. So a number is given by its decimal string, the one that the conversion of
  numbers to strings yields for it: \<open>1e+21\<close> for ten to the 21, \<open>1.5\<close> for one and a half,
  \<open>9007199254740992\<close> for what the JSON text \<open>9007199254740993\<close> parses to, \<open>0\<close> for both
  zeros. The literal \<open>0\<close> of the source is the number \<open>0\<close>.
\<close>

datatype jsnumber = Number string

instantiation jsnumber :: zero
begin

definition zero_jsnumber :: jsnumber where
  "zero_jsnumber = Number ''0''"

instance ..

end

datatype jsval =
    JUndefined
  | JNull
  | JBool bool
  | JNum jsnumber
  | JStr string
  | JArr "jsval list"
  | JObj "(string \<times> jsval) list"
  | JNative string

text \<open>The only exception that these paths of index.js can throw.\<close>

datatype js_error = TypeError

definition bindE :: "js_error + 'a \<Rightarrow> ('a \<Rightarrow> js_error + 'b) \<Rightarrow> js_error + 'b" where
  "bindE r f = (case r of Inl e \<Rightarrow> Inl e | Inr x \<Rightarrow> f x)"

text \<open>ToBoolean: what \<open>!x\<close>, \<open>x || y\<close> and \<open>x ? a : b\<close> test.\<close>

fun truthy :: "jsval \<Rightarrow> bool" where
  "truthy JUndefined = False"
| "truthy JNull = False"
| "truthy (JBool b) = b"
| "truthy (JNum n) = (n \<noteq> 0)"
| "truthy (JStr s) = (s \<noteq> [])"
| "truthy (JArr xs) = True"
| "truthy (JObj kvs) = True"
| "truthy (JNative n) = True"

text \<open>
  \<open>v[k]\<close> and \<open>v.k\<close>: a TypeError on \<open>null\<close> and \<open>undefined\<close>, the own property of an
  object, \<open>undefined\<close> where there is none. It is used with the property names that
  handleReport reads, none of which a prototype of a JSON value defines.
\<close>

definition getProp :: "jsval \<Rightarrow> string \<Rightarrow> js_error + jsval" where
  "getProp v k =
     (case v of
        JUndefined \<Rightarrow> Inl TypeError
      | JNull \<Rightarrow> Inl TypeError
      | JObj kvs \<Rightarrow> Inr (case map_of kvs k of Some x \<Rightarrow> x | None \<Rightarrow> JUndefined)
      | _ \<Rightarrow> Inr JUndefined)"

text \<open>
  The names that every plain object inherits from \<open>Object.prototype\<close>; each is bound to
  a function (or, for \<open>__proto__\<close>, to the prototype object), so each is truthy.
\<close>

definition objectPrototypeNames :: "string list" where
  "objectPrototypeNames =
     [''constructor'', ''__proto__'', ''hasOwnProperty'', ''isPrototypeOf'',
      ''propertyIsEnumerable'', ''toString'', ''toLocaleString'', ''valueOf'',
      ''__defineGetter__'', ''__defineSetter__'', ''__lookupGetter__'', ''__lookupSetter__'']"

text \<open>
  \<open>obj[key]\<close> on a plain object with a key that the request chooses: the own property,
  else the inherited one, else \<open>undefined\<close>.
\<close>

definition plainGet :: "(string \<times> jsval) list \<Rightarrow> string \<Rightarrow> jsval" where
  "plainGet own k =
     (case map_of own k of
        Some x \<Rightarrow> x
      | None \<Rightarrow> if k \<in> set objectPrototypeNames then JNative k else JUndefined)"

subsection \<open>Strings\<close>

text \<open>\<open>String.prototype.indexOf(pat)\<close>: the least index where \<open>pat\<close> starts, else \<open>-1\<close>.\<close>

fun indexOfFrom :: "nat \<Rightarrow> string \<Rightarrow> string \<Rightarrow> int" where
  "indexOfFrom k [] pat = (if pat = [] then int k else - 1)"
| "indexOfFrom k (c # cs) pat =
     (if prefix pat (c # cs) then int k else indexOfFrom (Suc k) cs pat)"

definition indexOf :: "string \<Rightarrow> string \<Rightarrow> int" where
  "indexOf s pat = indexOfFrom 0 s pat"

text \<open>\<open>Array.prototype.indexOf(x)\<close>, by strict equality.\<close>

fun arrayIndexOfFrom :: "nat \<Rightarrow> jsval list \<Rightarrow> jsval \<Rightarrow> int" where
  "arrayIndexOfFrom k [] x = - 1"
| "arrayIndexOfFrom k (y # ys) x = (if y = x then int k else arrayIndexOfFrom (Suc k) ys x)"

text \<open>
  \<open>String.prototype.substring(a, b)\<close>: both ends clamped to the string, swapped when
  \<open>a > b\<close>.
\<close>

definition substring :: "string \<Rightarrow> int \<Rightarrow> int \<Rightarrow> string" where
  "substring s a b =
     (let n = int (length s);
          a' = min (max a 0) n;
          b' = min (max b 0) n;
          lo = min a' b';
          hi = max a' b'
      in take (nat (hi - lo)) (drop (nat lo) s))"

text \<open>
  \<open>String.prototype.replace(pat, rep)\<close> with a string pattern: the first occurrence
  only. (\<open>rep\<close> is the empty string at both call sites, so no \<open>$\<close> pattern arises.)
\<close>

definition replace :: "string \<Rightarrow> string \<Rightarrow> string \<Rightarrow> string" where
  "replace s pat rep =
     (let pos = indexOf s pat
      in if pos = - 1 then s
         else take (nat pos) s @ rep @ drop (nat pos + length pat) s)"

text \<open>\<open>String.prototype.trim()\<close>, on the white space of the 8-bit range.\<close>

definition isWhiteSpace :: "char \<Rightarrow> bool" where
  "isWhiteSpace c = (c \<in> set [CHR '' '', CHR 0x09, CHR 0x0A, CHR 0x0B, CHR 0x0C, CHR 0x0D, CHR 0xA0])"

definition trim :: "string \<Rightarrow> string" where
  "trim s = rev (dropWhile isWhiteSpace (rev (dropWhile isWhiteSpace s)))"

subsection \<open>Numbers and conversion to strings\<close>

definition digitChar :: "nat \<Rightarrow> char" where
  "digitChar d = ''0123456789abcdefghijklmnopqrstuvwxyz'' ! d"

function natToString :: "nat \<Rightarrow> nat \<Rightarrow> string" where
  "natToString r n =
     (if r < 2 \<or> n < r then [digitChar n]
      else natToString r (n div r) @ [digitChar (n mod r)])"
  by pat_completeness auto
termination
  by (relation "measure (\<lambda>(r, n). n)") auto

declare natToString.simps [simp del]

text \<open>
  \<open>Number.prototype.toString(radix)\<close> on an integer: index.js applies it to the capture
  time, the integer count of milliseconds that \<open>+(new Date())\<close> yields.
\<close>

definition numberToString :: "nat \<Rightarrow> int \<Rightarrow> string" where
  "numberToString r n =
     (if n < 0 then ''-'' @ natToString r (nat (- n)) else natToString r (nat n))"

fun join :: "string \<Rightarrow> string list \<Rightarrow> string" where
  "join sep [] = []"
| "join sep [x] = x"
| "join sep (x # y # ys) = x @ sep @ join sep (y # ys)"

text \<open>The results of a list of computations, or the first exception among them.\<close>

fun sequenceE :: "(js_error + 'a) list \<Rightarrow> js_error + 'a list" where
  "sequenceE [] = Inr []"
| "sequenceE (r # rs) = bindE r (\<lambda>x. bindE (sequenceE rs) (\<lambda>xs. Inr (x # xs)))"

text \<open>
  ToString, as a template literal \<open>`${x}`\<close> applies it. A number gives its decimal
  string. An object is converted by its \<open>toString\<close> method: the inherited one gives
  \<open>[object Object]\<close>; an own property \<open>toString\<close>, which in JSON data is never a
  function, hides it, and then neither \<open>toString\<close> nor \<open>valueOf\<close> yields a primitive
  value: a TypeError. An array is its elements joined by commas, \<open>null\<close> and
  \<open>undefined\<close> elements left empty, the others converted in turn.
\<close>

fun ToString :: "jsval \<Rightarrow> js_error + string" where
  "ToString JUndefined = Inr ''undefined''"
| "ToString JNull = Inr ''null''"
| "ToString (JBool b) = Inr (if b then ''true'' else ''false'')"
| "ToString (JNum n) = Inr (case n of Number s \<Rightarrow> s)"
| "ToString (JStr s) = Inr s"
| "ToString (JArr xs) =
     bindE (sequenceE (map (\<lambda>x. if x = JUndefined \<or> x = JNull then Inr [] else ToString x) xs))
       (\<lambda>ss. Inr (join '','' ss))"
| "ToString (JObj kvs) =
     (if map_of kvs ''toString'' = None then Inr ''[object Object]'' else Inl TypeError)"
| "ToString (JNative n) =
     Inr (if n = ''__proto__'' then ''[object Object]''
          else ''function '' @ n @ ''() { [native code] }'')"

subsection \<open>Method calls on a value\<close>

text \<open>
  \<open>x.replace(..)\<close>, \<open>x.indexOf(..)\<close>, \<open>x.substring(..)\<close>: a TypeError when \<open>x\<close> is
  \<open>null\<close> or \<open>undefined\<close>, and when \<open>x\<close> has no such method. Strings have all three;
  arrays have \<open>indexOf\<close> only.
\<close>

definition call_replace :: "jsval \<Rightarrow> string \<Rightarrow> string \<Rightarrow> js_error + jsval" where
  "call_replace x pat rep =
     (case x of JStr s \<Rightarrow> Inr (JStr (replace s pat rep)) | _ \<Rightarrow> Inl TypeError)"

definition call_indexOf :: "jsval \<Rightarrow> string \<Rightarrow> js_error + int" where
  "call_indexOf x pat =
     (case x of
        JStr s \<Rightarrow> Inr (indexOf s pat)
      | JArr xs \<Rightarrow> Inr (arrayIndexOfFrom 0 xs (JStr pat))
      | _ \<Rightarrow> Inl TypeError)"

definition call_substring :: "jsval \<Rightarrow> int \<Rightarrow> int \<Rightarrow> js_error + jsval" where
  "call_substring x a b =
     (case x of JStr s \<Rightarrow> Inr (JStr (substring s a b)) | _ \<Rightarrow> Inl TypeError)"

section \<open>index.js\<close>

subsection \<open>Constants and collaborators\<close>

definition SERVER_PORT :: nat where
  "SERVER_PORT = 3000"

definition INCLUDE_FULL_REPORT :: bool where
  "INCLUDE_FULL_REPORT = False"

text \<open>
  The two serializers that index.js calls and does not define: \<open>JSURL.stringify\<close> of
  the jsurl package, which returns a string, and the built-in \<open>JSON.stringify\<close>, which
  returns a string or \<open>undefined\<close>. Both are parameters of the model.
\<close>

record externals =
  JSURL_stringify :: "jsval \<Rightarrow> string"
  JSON_stringify :: "jsval \<Rightarrow> jsval"

text \<open>
  The object \<open>data\<close> that handleReport builds and hands to \<open>mPulse.sendBeacon\<close>. The
  properties \<open>u\<close> and \<open>err\<close> exist only once a branch has assigned them: \<open>None\<close> is an
  absent property, \<open>Some JUndefined\<close> a property assigned \<open>undefined\<close>.
\<close>

record data =
  rt_tstart :: int
  rt_end :: int
  http_initiator :: string
  data_ua :: jsval
  data_ip :: jsval
  data_u :: "jsval option"
  data_err :: "string option"

subsection \<open>handleReport: the branches\<close>

text \<open>
  Each branch yields the value it assigns to \<open>data.u\<close> (if it assigns one) and the array
  literal it passes to \<open>JSURL.stringify\<close> (if it calls it), or the TypeError that a
  property read, a method call or the conversion of a value in a template literal
  throws on the way.
\<close>

type_synonym payload = "jsval option \<times> jsval option"

text \<open>Content Security Policy (CSP), lines 102 to 125.\<close>

definition handleReport_csp :: "(jsval \<Rightarrow> jsval) \<Rightarrow> jsval \<Rightarrow> int \<Rightarrow> js_error + payload" where
  "handleReport_csp json_stringify body when =
     bindE (getProp body ''csp-report'') (\<lambda>cr.
     bindE (if truthy cr then Inr cr else getProp body ''body'') (\<lambda>csp.
     bindE (getProp csp ''document-uri'') (\<lambda>u.
     bindE (getProp csp ''blocked-uri'') (\<lambda>bu.
     bindE (call_replace bu ''http://'' []) (\<lambda>bu1.
     bindE (call_replace bu1 ''https://'' []) (\<lambda>blockedUri0.
     bindE (call_indexOf blockedUri0 ''/'') (\<lambda>i.
     bindE (if i \<noteq> - 1
            then bindE (call_indexOf blockedUri0 ''/'') (\<lambda>j. call_substring blockedUri0 0 j)
            else Inr blockedUri0) (\<lambda>blockedUri.
     bindE (getProp csp ''effective-directive'') (\<lambda>ed.
     bindE (if truthy ed then Inr ed else getProp csp ''violated-directive'') (\<lambda>directive0.
     bindE (call_indexOf directive0 '' '') (\<lambda>k.
     bindE (if k \<noteq> - 1
            then bindE (call_indexOf directive0 '' '') (\<lambda>j. call_substring directive0 0 j)
            else Inr directive0) (\<lambda>directive.
     bindE (ToString directive) (\<lambda>directiveText.
     bindE (ToString blockedUri) (\<lambda>blockedUriText.
     Inr (Some u,
          Some (JArr [JObj
            [(''v'', JNum 0),
             (''t'', JStr ''Content Security Policy''),
             (''d'', JStr (numberToString 36 when)),
             (''m'', JStr (directiveText @ '': '' @ blockedUriText)),
             (''f'', if INCLUDE_FULL_REPORT
                     then JArr [JObj [(''f'', json_stringify csp)]]
                     else JUndefined)]]))))))))))))))))"

text \<open>Network Error Logging (NEL), lines 130 to 143.\<close>

definition handleReport_nel :: "(jsval \<Rightarrow> jsval) \<Rightarrow> jsval \<Rightarrow> int \<Rightarrow> js_error + payload" where
  "handleReport_nel json_stringify body when =
     bindE (getProp body ''body'') (\<lambda>nel.
     bindE (getProp body ''url'') (\<lambda>u.
     bindE (getProp nel ''type'') (\<lambda>ty.
     bindE (ToString ty) (\<lambda>tyText.
     bindE (getProp nel ''protocol'') (\<lambda>protocol.
     bindE (ToString protocol) (\<lambda>protocolText.
     bindE (getProp nel ''method'') (\<lambda>method.
     bindE (ToString method) (\<lambda>methodText.
     bindE (getProp nel ''status_code'') (\<lambda>status_code.
     bindE (ToString status_code) (\<lambda>statusText.
     Inr (Some u,
          Some (JArr [JObj
            [(''v'', JNum 0),
             (''t'', JStr ''Network Error Logging''),
             (''d'', JStr (numberToString 36 when)),
             (''m'', JStr (tyText @ '' '' @ protocolText @ '' '' @
                           methodText @ '' '' @ statusText)),
             (''f'', if INCLUDE_FULL_REPORT
                     then JArr [JObj [(''f'', json_stringify nel)]]
                     else JUndefined)]]))))))))))))"

text \<open>Reporting API: Deprecation, lines 148 to 164.\<close>

definition handleReport_deprecation :: "(jsval \<Rightarrow> jsval) \<Rightarrow> jsval \<Rightarrow> int \<Rightarrow> js_error + payload" where
  "handleReport_deprecation json_stringify body when =
     bindE (getProp body ''body'') (\<lambda>deprecation.
     bindE (getProp body ''url'') (\<lambda>u.
     bindE (getProp deprecation ''id'') (\<lambda>ident.
     bindE (ToString ident) (\<lambda>identText.
     bindE (getProp deprecation ''anticipatedRemoval'') (\<lambda>ar.
     bindE (if truthy ar then getProp deprecation ''anticipatedRemoval''
            else Inr (JStr [])) (\<lambda>removal.
     bindE (ToString removal) (\<lambda>removalText.
     bindE (if INCLUDE_FULL_REPORT
            then bindE (getProp deprecation ''lineNumber'') (\<lambda>l.
                 bindE (getProp deprecation ''columnNumber'') (\<lambda>c.
                 bindE (getProp deprecation ''sourceFile'') (\<lambda>f.
                 Inr (JArr [JObj [(''l'', l), (''c'', c), (''f'', f),
                                  (''w'', json_stringify deprecation)]]))))
            else Inr JUndefined) (\<lambda>full.
     Inr (Some u,
          Some (JArr [JObj
            [(''v'', JNum 0),
             (''t'', JStr ''Deprecation''),
             (''d'', JStr (numberToString 36 when)),
             (''m'', JStr (trim (identText @ '' '' @ removalText))),
             (''f'', full)]]))))))))))"

text \<open>Reporting API: Intervention, lines 169 to 185.\<close>

definition handleReport_intervention :: "(jsval \<Rightarrow> jsval) \<Rightarrow> jsval \<Rightarrow> int \<Rightarrow> js_error + payload" where
  "handleReport_intervention json_stringify body when =
     bindE (getProp body ''body'') (\<lambda>intervention.
     bindE (getProp body ''url'') (\<lambda>u.
     bindE (getProp intervention ''id'') (\<lambda>ident.
     bindE (ToString ident) (\<lambda>identText.
     bindE (if INCLUDE_FULL_REPORT
            then bindE (getProp intervention ''lineNumber'') (\<lambda>l.
                 bindE (getProp intervention ''columnNumber'') (\<lambda>c.
                 bindE (getProp intervention ''sourceFile'') (\<lambda>f.
                 Inr (JArr [JObj [(''l'', l), (''c'', c), (''f'', f),
                                  (''w'', json_stringify intervention)]]))))
            else Inr JUndefined) (\<lambda>full.
     Inr (Some u,
          Some (JArr [JObj
            [(''v'', JNum 0),
             (''t'', JStr ''Intervention''),
             (''d'', JStr (numberToString 36 when)),
             (''m'', JStr identText),
             (''f'', full)]])))))))"

text \<open>Reporting API: Crash, lines 190 to 203.\<close>

definition handleReport_crash :: "(jsval \<Rightarrow> jsval) \<Rightarrow> jsval \<Rightarrow> int \<Rightarrow> js_error + payload" where
  "handleReport_crash json_stringify body when =
     bindE (getProp body ''body'') (\<lambda>crash.
     bindE (getProp body ''url'') (\<lambda>u.
     bindE (getProp crash ''reason'') (\<lambda>reason.
     bindE (ToString reason) (\<lambda>reasonText.
     Inr (Some u,
          Some (JArr [JObj
            [(''v'', JNum 0),
             (''t'', JStr ''Crash''),
             (''d'', JStr (numberToString 36 when)),
             (''m'', JStr reasonText),
             (''f'', if INCLUDE_FULL_REPORT
                     then JArr [JObj [(''f'', json_stringify crash)]]
                     else JUndefined)]]))))))"

text \<open>Feature Policy Violation, lines 208 to 221.\<close>

definition handleReport_feature_policy :: "(jsval \<Rightarrow> jsval) \<Rightarrow> jsval \<Rightarrow> int \<Rightarrow> js_error + payload" where
  "handleReport_feature_policy json_stringify body when =
     bindE (getProp body ''body'') (\<lambda>violation.
     bindE (getProp body ''url'') (\<lambda>u.
     bindE (getProp violation ''policyId'') (\<lambda>policyId.
     bindE (ToString policyId) (\<lambda>policyIdText.
     Inr (Some u,
          Some (JArr [JObj
            [(''v'', JNum 0),
             (''t'', JStr ''Feature Policy Violation''),
             (''d'', JStr (numberToString 36 when)),
             (''m'', JStr policyIdText),
             (''f'', if INCLUDE_FULL_REPORT
                     then JArr [JObj [(''f'', json_stringify violation)]]
                     else JUndefined)]]))))))"

text \<open>XSS, lines 226 to 239: no assignment to \<open>data.u\<close>.\<close>

definition handleReport_xss :: "(jsval \<Rightarrow> jsval) \<Rightarrow> jsval \<Rightarrow> int \<Rightarrow> js_error + payload" where
  "handleReport_xss json_stringify body when =
     bindE (getProp body ''xss-report'') (\<lambda>xss.
     bindE (getProp xss ''request-url'') (\<lambda>ru.
     bindE (call_replace ru ''http://'' []) (\<lambda>ru1.
     bindE (call_replace ru1 ''https://'' []) (\<lambda>requestUrl.
     bindE (ToString requestUrl) (\<lambda>requestUrlText.
     Inr (None,
          Some (JArr [JObj
            [(''v'', JNum 0),
             (''t'', JStr ''XSS Report''),
             (''d'', JStr (numberToString 36 when)),
             (''m'', JStr requestUrlText),
             (''f'', if INCLUDE_FULL_REPORT
                     then JArr [JObj [(''f'', json_stringify xss)]]
                     else JUndefined)]])))))))"

text \<open>Expect-CT, lines 244 to 252: no assignment to \<open>data.u\<close>, no \<open>f\<close> property.\<close>

definition handleReport_expect_ct :: "jsval \<Rightarrow> int \<Rightarrow> js_error + payload" where
  "handleReport_expect_ct body when =
     bindE (getProp body ''expect-ct-report'') (\<lambda>ct.
     bindE (getProp ct ''hostname'') (\<lambda>hostname.
     bindE (ToString hostname) (\<lambda>hostnameText.
     Inr (None,
          Some (JArr [JObj
            [(''v'', JNum 0),
             (''t'', JStr ''Expect-CT''),
             (''d'', JStr (numberToString 36 when)),
             (''m'', JStr hostnameText)]])))))"

subsection \<open>handleReport: the chain of tests\<close>

text \<open>\<open>body.type === k\<close> and the truthiness of \<open>body[k]\<close>.\<close>

definition typeIs :: "jsval \<Rightarrow> string \<Rightarrow> js_error + bool" where
  "typeIs body k = bindE (getProp body ''type'') (\<lambda>ty. Inr (ty = JStr k))"

definition hasMarker :: "jsval \<Rightarrow> string \<Rightarrow> js_error + bool" where
  "hasMarker body k = bindE (getProp body k) (\<lambda>m. Inr (truthy m))"

text \<open>
  The \<open>if\<close> / \<open>else if\<close> chain of lines 98 to 259, in the order of the source. The last
  branch (unknown report) only logs.
\<close>

definition processPayload :: "(jsval \<Rightarrow> jsval) \<Rightarrow> jsval \<Rightarrow> int \<Rightarrow> js_error + payload" where
  "processPayload json_stringify body when =
     bindE (bindE (typeIs body ''csp'')
              (\<lambda>c. if c then Inr True else hasMarker body ''csp-report'')) (\<lambda>c1.
     if c1 then handleReport_csp json_stringify body when else
     bindE (typeIs body ''network-error'') (\<lambda>c2.
     if c2 then handleReport_nel json_stringify body when else
     bindE (typeIs body ''deprecation'') (\<lambda>c3.
     if c3 then handleReport_deprecation json_stringify body when else
     bindE (typeIs body ''intervention'') (\<lambda>c4.
     if c4 then handleReport_intervention json_stringify body when else
     bindE (typeIs body ''crash'') (\<lambda>c5.
     if c5 then handleReport_crash json_stringify body when else
     bindE (typeIs body ''feature-policy-violation'') (\<lambda>c6.
     if c6 then handleReport_feature_policy json_stringify body when else
     bindE (hasMarker body ''xss-report'') (\<lambda>c7.
     if c7 then handleReport_xss json_stringify body when else
     bindE (hasMarker body ''expect-ct-report'') (\<lambda>c8.
     if c8 then handleReport_expect_ct body when else
     Inr (None, None)))))))))"

text \<open>
  handleReport (lines 78 to 265) at capture time \<open>when\<close>, the value of
  \<open>+(new Date())\<close>. \<open>Inr d\<close>: \<open>mPulse.sendBeacon(d)\<close> was reached; \<open>Inl e\<close>: \<open>e\<close> was thrown
  before it, and no beacon was sent.
\<close>

definition handleReport :: "externals \<Rightarrow> jsval \<Rightarrow> jsval \<Rightarrow> jsval \<Rightarrow> int \<Rightarrow> js_error + data" where
  "handleReport L body ua ip when =
     (let d = \<lparr>rt_tstart = when, rt_end = when, http_initiator = ''error'',
                data_ua = ua, data_ip = ip, data_u = None, data_err = None\<rparr>
      in bindE (processPayload (JSON_stringify L) body when) (\<lambda>(u, e).
         Inr (d\<lparr>data_u := u, data_err := map_option (JSURL_stringify L) e\<rparr>)))"

subsection \<open>The route POST /report/:apiKey\<close>

text \<open>
  What the handler reads of a request: the parsed body, two headers, the peer address
  and the route parameter \<open>apiKey\<close>, which is a string where the router has bound it and
  \<open>undefined\<close> (\<open>None\<close>) otherwise.
\<close>

record request =
  req_body :: jsval
  req_user_agent :: jsval
  req_x_forwarded_for :: jsval
  req_ip :: jsval
  req_apiKey :: "string option"

text \<open>What \<open>reply.send\<close> is given: an Error, or \<open>{success: true, handled: n}\<close>.\<close>

datatype reply = ReplyError string | ReplySuccess nat

text \<open>
  The loop of lines 63 to 66. \<open>now i\<close> is the clock as the call for element \<open>i\<close> reads it.
  The result is the beacons sent, in order, and the count, or the exception that ended
  the loop.
\<close>

fun handleReports ::
  "externals \<Rightarrow> jsval \<Rightarrow> jsval \<Rightarrow> (nat \<Rightarrow> int) \<Rightarrow> nat \<Rightarrow> jsval list \<Rightarrow> nat
     \<Rightarrow> data list \<times> (js_error + nat)" where
  "handleReports L ua ip now i [] reportsHandled = ([], Inr reportsHandled)"
| "handleReports L ua ip now i (r # rs) reportsHandled =
     (case handleReport L r ua ip (now i) of
        Inl e \<Rightarrow> ([], Inl e)
      | Inr d \<Rightarrow>
          (case handleReports L ua ip now (Suc i) rs (Suc reportsHandled) of
             (sent, res) \<Rightarrow> (d # sent, res)))"

text \<open>
  The handler of lines 27 to 76. \<open>appLookup\<close> holds the own properties of apps.json;
  \<open>apps\<close> lists the keys assigned in the object \<open>apps\<close> (the client that \<open>mPulse.init\<close>
  returns is opaque, and truthy). The result is the new \<open>apps\<close>, the beacons sent, and
  what \<open>reply.send\<close> is given, or the exception that left the handler before any
  \<open>reply.send\<close>.
\<close>

definition route ::
  "externals \<Rightarrow> (string \<times> jsval) list \<Rightarrow> (nat \<Rightarrow> int) \<Rightarrow> string list \<Rightarrow> request
     \<Rightarrow> string list \<times> data list \<times> (js_error + reply)" where
  "route L appLookup now apps request =
     (let body = req_body request;
          ua = req_user_agent request;
          ip = (if truthy (req_x_forwarded_for request)
                then req_x_forwarded_for request else req_ip request)
      in if \<not> truthy body then (apps, [], Inr (ReplyError ''No Request body''))
         else
           (case req_apiKey request of
              None \<Rightarrow> (apps, [], Inr (ReplyError ''No API Key specified''))
            | Some apiKey \<Rightarrow>
                if apiKey = [] then (apps, [], Inr (ReplyError ''No API Key specified''))
                else let restApiSecretKey = plainGet appLookup apiKey
                in if \<not> truthy restApiSecretKey
                   then (apps, [], Inr (ReplyError ''Unknown API key''))
                   else let apps' =
                          (if apiKey \<in> set apps \<or> apiKey \<in> set objectPrototypeNames
                           then apps else apiKey # apps)
                   in (case body of
                         JArr reports \<Rightarrow>
                           (case handleReports L ua ip now 0 reports 0 of
                              (sent, Inl e) \<Rightarrow> (apps', sent, Inl e)
                            | (sent, Inr n) \<Rightarrow> (apps', sent, Inr (ReplySuccess n)))
                       | _ \<Rightarrow>
                           (case handleReport L body ua ip (now 0) of
                              Inl e \<Rightarrow> (apps', [], Inl e)
                            | Inr d \<Rightarrow> (apps', [d], Inr (ReplySuccess 1))))))"

section \<open>Notions for stating the claims\<close>

text \<open>
  The definitions of this section are not translations of index.js. They say what the
  claims speak of: truncation, the first occurrence of a pattern, the numeral of a
  number in base 36, the kind of a report, the message of a kind. The theorems relate
  them to the code.
\<close>

subsection \<open>Reading a report\<close>

text \<open>
  The value of \<open>v[k]\<close> where reading it does not throw: what \<open>getProp\<close> returns on
  every value but \<open>null\<close> and \<open>undefined\<close>.
\<close>

definition field :: "jsval \<Rightarrow> string \<Rightarrow> jsval" where
  "field v k =
     (case v of
        JObj kvs \<Rightarrow> (case map_of kvs k of Some x \<Rightarrow> x | None \<Rightarrow> JUndefined)
      | _ \<Rightarrow> JUndefined)"

subsection \<open>Truncation and scheme stripping\<close>

text \<open>A string truncated at the first \<open>c\<close>, unchanged when it has none.\<close>

definition truncateAt :: "char \<Rightarrow> string \<Rightarrow> string" where
  "truncateAt c s = takeWhile (\<lambda>x. x \<noteq> c) s"

text \<open>
  \<open>pat\<close> occurs in \<open>s\<close> at index \<open>i\<close>; the first occurrence is at the least such index;
  removing it keeps what is before and what is after.
\<close>

definition occursAt :: "string \<Rightarrow> string \<Rightarrow> nat \<Rightarrow> bool" where
  "occursAt pat s i = (take (length pat) (drop i s) = pat)"

definition firstOccurrence :: "string \<Rightarrow> string \<Rightarrow> nat option" where
  "firstOccurrence pat s = find (occursAt pat s) [0..<Suc (length s)]"

definition removeFirstOccurrence :: "string \<Rightarrow> string \<Rightarrow> string" where
  "removeFirstOccurrence pat s =
     (case firstOccurrence pat s of
        None \<Rightarrow> s
      | Some i \<Rightarrow> take i s @ drop (i + length pat) s)"

text \<open>
  Scheme stripping: the first \<open>http://\<close> removed, then the first \<open>https://\<close> of what
  remains.
\<close>

definition stripScheme :: "string \<Rightarrow> string" where
  "stripScheme s = removeFirstOccurrence ''https://'' (removeFirstOccurrence ''http://'' s)"



subsection \<open>The normalized error record\<close>

text \<open>
  The sequence of one NormalizedError record without a detail payload, as the encoder
  receives it: schema version, title, date token, message, and an undefined \<open>f\<close>.
\<close>

definition NormalizedError :: "string \<Rightarrow> string \<Rightarrow> string \<Rightarrow> jsval" where
  "NormalizedError title dateToken message =
     JArr [JObj [(''v'', JNum 0), (''t'', JStr title), (''d'', JStr dateToken),
                 (''m'', JStr message), (''f'', JUndefined)]]"

text \<open>The properties of the one record of such a sequence.\<close>

definition recordOf :: "jsval \<Rightarrow> (string \<times> jsval) list option" where
  "recordOf e = (case e of JArr [JObj kvs] \<Rightarrow> Some kvs | _ \<Rightarrow> None)"

definition titleOf :: "payload \<Rightarrow> string option" where
  "titleOf p =
     (case snd p of
        None \<Rightarrow> None
      | Some e \<Rightarrow>
          (case recordOf e of
             None \<Rightarrow> None
           | Some kvs \<Rightarrow> (case map_of kvs ''t'' of Some (JStr s) \<Rightarrow> Some s | _ \<Rightarrow> None)))"

text \<open>The fixed closed set of titles.\<close>

definition titles :: "string list" where
  "titles = [''Content Security Policy'', ''Network Error Logging'', ''Deprecation'',
             ''Intervention'', ''Crash'', ''Feature Policy Violation'', ''XSS Report'',
             ''Expect-CT'']"

text \<open>
  A payload holds a record with schema version 0, the given title, the base-36 date
  token of \<open>t\<close>, and no detail: \<open>f\<close> absent or undefined.
\<close>

definition recordShape :: "string \<Rightarrow> int \<Rightarrow> payload \<Rightarrow> bool" where
  "recordShape title t p =
     (case snd p of
        None \<Rightarrow> False
      | Some e \<Rightarrow>
          (case recordOf e of
             None \<Rightarrow> False
           | Some kvs \<Rightarrow>
               map_of kvs ''v'' = Some (JNum 0) \<and>
               map_of kvs ''t'' = Some (JStr title) \<and>
               map_of kvs ''d'' = Some (JStr (numberToString 36 t)) \<and>
               (map_of kvs ''f'' = None \<or> map_of kvs ''f'' = Some JUndefined)))"

subsection \<open>Base 36\<close>

text \<open>
  The integer that a base-36 numeral denotes: digits \<open>0\<close> to \<open>9\<close> and \<open>a\<close> to \<open>z\<close>, most
  significant first, after an optional minus sign.
\<close>

definition digitVal :: "char \<Rightarrow> nat option" where
  "digitVal c =
     (let k = (of_char c :: nat)
      in if 48 \<le> k \<and> k < 58 then Some (k - 48)
         else if 97 \<le> k \<and> k < 123 then Some (k - 87)
         else None)"

fun natFromString :: "nat \<Rightarrow> nat \<Rightarrow> string \<Rightarrow> nat option" where
  "natFromString r acc [] = Some acc"
| "natFromString r acc (c # cs) =
     (case digitVal c of
        None \<Rightarrow> None
      | Some d \<Rightarrow> if d < r then natFromString r (acc * r + d) cs else None)"

definition parseBase36 :: "string \<Rightarrow> int option" where
  "parseBase36 s =
     (case s of
        [] \<Rightarrow> None
      | c # cs \<Rightarrow>
          if c = CHR ''-''
          then (if cs = [] then None else map_option (\<lambda>n. - int n) (natFromString 36 0 cs))
          else map_option int (natFromString 36 0 s))"

subsection \<open>Classification\<close>

datatype kind =
  CSP | NEL | Deprecation | Intervention | Crash | FeaturePolicy | XSS | ExpectCT | Unknown

fun kindTitle :: "kind \<Rightarrow> string option" where
  "kindTitle CSP = Some ''Content Security Policy''"
| "kindTitle NEL = Some ''Network Error Logging''"
| "kindTitle Deprecation = Some ''Deprecation''"
| "kindTitle Intervention = Some ''Intervention''"
| "kindTitle Crash = Some ''Crash''"
| "kindTitle FeaturePolicy = Some ''Feature Policy Violation''"
| "kindTitle XSS = Some ''XSS Report''"
| "kindTitle ExpectCT = Some ''Expect-CT''"
| "kindTitle Unknown = None"

text \<open>The kind that the \<open>type\<close> discriminator names, if it names one.\<close>

definition kindOfType :: "jsval \<Rightarrow> kind option" where
  "kindOfType ty =
     (if ty = JStr ''csp'' then Some CSP
      else if ty = JStr ''network-error'' then Some NEL
      else if ty = JStr ''deprecation'' then Some Deprecation
      else if ty = JStr ''intervention'' then Some Intervention
      else if ty = JStr ''crash'' then Some Crash
      else if ty = JStr ''feature-policy-violation'' then Some FeaturePolicy
      else None)"

text \<open>
  Classification as the specification words it: the \<open>type\<close> discriminator first, the
  legacy marker fields only when \<open>type\<close> selects no normalizer.
\<close>

definition classify_type_first :: "jsval \<Rightarrow> kind" where
  "classify_type_first body =
     (case kindOfType (field body ''type'') of
        Some k \<Rightarrow> k
      | None \<Rightarrow>
          if truthy (field body ''csp-report'') then CSP
          else if truthy (field body ''xss-report'') then XSS
          else if truthy (field body ''expect-ct-report'') then ExpectCT
          else Unknown)"

text \<open>
  Classification with the \<open>csp-report\<close> marker consulted before the \<open>type\<close>
  discriminator, and the other two markers after it.
\<close>

definition classify_source_order :: "jsval \<Rightarrow> kind" where
  "classify_source_order body =
     (if field body ''type'' = JStr ''csp'' \<or> truthy (field body ''csp-report'') then CSP
      else case kindOfType (field body ''type'') of
        Some k \<Rightarrow> k
      | None \<Rightarrow>
          if truthy (field body ''xss-report'') then XSS
          else if truthy (field body ''expect-ct-report'') then ExpectCT
          else Unknown)"

text \<open>The normalizer of a kind; none for an unknown report.\<close>

definition dispatch :: "(jsval \<Rightarrow> jsval) \<Rightarrow> kind \<Rightarrow> jsval \<Rightarrow> int \<Rightarrow> js_error + payload" where
  "dispatch J k body t =
     (case k of
        CSP \<Rightarrow> handleReport_csp J body t
      | NEL \<Rightarrow> handleReport_nel J body t
      | Deprecation \<Rightarrow> handleReport_deprecation J body t
      | Intervention \<Rightarrow> handleReport_intervention J body t
      | Crash \<Rightarrow> handleReport_crash J body t
      | FeaturePolicy \<Rightarrow> handleReport_feature_policy J body t
      | XSS \<Rightarrow> handleReport_xss J body t
      | ExpectCT \<Rightarrow> handleReport_expect_ct body t
      | Unknown \<Rightarrow> Inr (None, None))"

subsection \<open>Messages of the Reporting API kinds\<close>

text \<open>
  The parts of the message of a network-error, deprecation, intervention, crash or
  feature-policy report, read from its \<open>body\<close> as the table of normalizers says; an
  absent part is \<open>undefined\<close>, and an absent or falsy \<open>anticipatedRemoval\<close> the empty
  string.
\<close>

definition partsOf :: "kind \<Rightarrow> jsval \<Rightarrow> jsval list" where
  "partsOf k b =
     (case k of
        NEL \<Rightarrow> [field b ''type'', field b ''protocol'', field b ''method'',
                field b ''status_code'']
      | Deprecation \<Rightarrow>
          [field b ''id'',
           if truthy (field b ''anticipatedRemoval'') then field b ''anticipatedRemoval''
           else JStr []]
      | Intervention \<Rightarrow> [field b ''id'']
      | Crash \<Rightarrow> [field b ''reason'']
      | FeaturePolicy \<Rightarrow> [field b ''policyId'']
      | _ \<Rightarrow> [])"

text \<open>
  The message: the parts converted to strings in order and joined by spaces, trimmed
  for a deprecation report; or the exception of the first part whose conversion
  throws.
\<close>

definition messageOf :: "kind \<Rightarrow> jsval \<Rightarrow> js_error + string" where
  "messageOf k b =
     bindE (sequenceE (map ToString (partsOf k b)))
       (\<lambda>ss. Inr (if k = Deprecation then trim (join '' '' ss) else join '' '' ss))"

text \<open>A value that is neither an array nor an object.\<close>

definition isPrimitive :: "jsval \<Rightarrow> bool" where
  "isPrimitive v = (case v of JArr xs \<Rightarrow> False | JObj kvs \<Rightarrow> False | _ \<Rightarrow> True)"


subsection \<open>Beacons and requests\<close>

text \<open>The base context fields of a beacon at capture time \<open>t\<close>, without \<open>u\<close> and \<open>err\<close>.\<close>

definition baseData :: "jsval \<Rightarrow> jsval \<Rightarrow> int \<Rightarrow> data" where
  "baseData ua ip t =
     \<lparr>rt_tstart = t, rt_end = t, http_initiator = ''error'',
      data_ua = ua, data_ip = ip, data_u = None, data_err = None\<rparr>"

text \<open>The client address: the forwarded-for header, else the peer address.\<close>

definition clientIp :: "request \<Rightarrow> jsval" where
  "clientIp request =
     (if truthy (req_x_forwarded_for request) then req_x_forwarded_for request
      else req_ip request)"

text \<open>
  A request passes validation: it has a body and an API key, and looking the key up in
  the credential table yields a truthy value.
\<close>

definition validated :: "(string \<times> jsval) list \<Rightarrow> request \<Rightarrow> bool" where
  "validated appLookup request =
     (truthy (req_body request) \<and>
      (case req_apiKey request of
         None \<Rightarrow> False
       | Some apiKey \<Rightarrow> apiKey \<noteq> [] \<and> truthy (plainGet appLookup apiKey)))"

text \<open>The session cache after the lazy initialization for the request's key.\<close>

definition appsAfter :: "string list \<Rightarrow> request \<Rightarrow> string list" where
  "appsAfter apps request =
     (case req_apiKey request of
        None \<Rightarrow> apps
      | Some k \<Rightarrow> if k \<in> set apps \<or> k \<in> set objectPrototypeNames then apps else k # apps)"

section \<open>Sample inputs\<close>

text \<open>
  Stand-ins for the two serializers, for evaluating the model at the sample inputs
  below. Every general theorem holds for all serializers.
\<close>

definition exampleExternals :: externals where
  "exampleExternals =
     \<lparr>JSURL_stringify = (\<lambda>v. ''~(encoded)''), JSON_stringify = (\<lambda>v. JUndefined)\<rparr>"

definition exampleClock :: "nat \<Rightarrow> int" where
  "exampleClock i = 1730000000000 + int i"

definition exampleAppLookup :: "(string \<times> jsval) list" where
  "exampleAppLookup = [(''ABCDE-12345'', JStr ''secret'')]"






text \<open>A report typed \<open>csp\<close> with neither \<open>csp-report\<close> nor \<open>body\<close>.\<close>

definition sampleCspNoPayload :: jsval where
  "sampleCspNoPayload = JObj [(''type'', JStr ''csp'')]"

text \<open>A crash report of the Reporting API, and one whose body lacks \<open>reason\<close>.\<close>

definition sampleCrash :: jsval where
  "sampleCrash =
     JObj [(''type'', JStr ''crash''), (''url'', JStr ''https://site.example/''),
           (''body'', JObj [(''reason'', JStr ''oom'')])]"





text \<open>A report typed \<open>network-error\<close> that also carries a \<open>csp-report\<close> marker.\<close>

definition sampleNelWithCspMarker :: jsval where
  "sampleNelWithCspMarker =
     JObj [(''type'', JStr ''network-error''), (''url'', JStr ''https://site.example/''),
           (''body'', JObj [(''type'', JStr ''dns.unreachable''), (''protocol'', JStr ''h2''),
                           (''method'', JStr ''GET''), (''status_code'', JNum 0)]),
           (''csp-report'',
            JObj [(''document-uri'', JStr ''https://site.example/page''),
                  (''blocked-uri'', JStr ''https://evil.example/x.png''),
                  (''violated-directive'', JStr ''img-src https://cdn.example'')])]"

text \<open>A report of a kind that no branch knows.\<close>

definition sampleUnknown :: jsval where
  "sampleUnknown = JObj [(''type'', JStr ''totally-new-kind'')]"

text \<open>An XSS auditor report whose URL holds \<open>http://\<close> after its start.\<close>

definition sampleXss :: jsval where
  "sampleXss =
     JObj [(''xss-report'',
            JObj [(''request-url'', JStr ''ftp://a.example/?next=http://b.example/'')])]"

definition sampleRequest :: "jsval \<Rightarrow> string \<Rightarrow> request" where
  "sampleRequest body apiKey =
     \<lparr>req_body = body, req_user_agent = JStr ''Mozilla/5.0'',
      req_x_forwarded_for = JUndefined, req_ip = JStr ''203.0.113.9'',
      req_apiKey = Some apiKey\<rparr>"

section \<open>Auxiliary facts\<close>

subsection \<open>Exceptions\<close>

lemma bindE_Inr [simp]: "bindE (Inr x) f = f x"
  by (simp add: bindE_def)

lemma bindE_Inl [simp]: "bindE (Inl e) f = Inl e"
  by (simp add: bindE_def)

lemma bindE_InrE:
  assumes "bindE r f = Inr p"
  obtains x where "r = Inr x" and "f x = Inr p"
  using assms by (cases r) (simp_all add: bindE_def)

lemma getProp_field:
  "getProp v k = (if v = JUndefined \<or> v = JNull then Inl TypeError else Inr (field v k))"
  by (cases v) (simp_all add: getProp_def field_def)

subsection \<open>indexOf, substring and replace\<close>

lemma occursAt_0: "occursAt pat s 0 = prefix pat s"
  unfolding occursAt_def prefix_def
  by (metis append_eq_conv_conj append_take_drop_id drop0)

lemma occursAt_Suc: "occursAt pat (c # cs) (Suc i) = occursAt pat cs i"
  by (simp add: occursAt_def)

lemma find_map: "find P (map f xs) = map_option f (find (P \<circ> f) xs)"
  by (induction xs) auto

lemma firstOccurrence_Nil: "firstOccurrence pat [] = (if pat = [] then Some 0 else None)"
  by (auto simp: firstOccurrence_def occursAt_def)

lemma firstOccurrence_Cons:
  "firstOccurrence pat (c # cs) =
     (if prefix pat (c # cs) then Some 0 else map_option Suc (firstOccurrence pat cs))"
proof -
  have "[0..<Suc (Suc (length cs))] = 0 # map Suc [0..<Suc (length cs)]"
    by (metis map_Suc_upt upt_conv_Cons zero_less_Suc)
  then show ?thesis
    unfolding firstOccurrence_def
    by (simp add: find_map occursAt_0 comp_def occursAt_Suc del: upt_Suc)
qed

lemma indexOfFrom_firstOccurrence:
  "indexOfFrom k s pat = (case firstOccurrence pat s of None \<Rightarrow> - 1 | Some i \<Rightarrow> int (k + i))"
proof (induction s arbitrary: k)
  case Nil
  show ?case by (simp add: firstOccurrence_Nil)
next
  case (Cons c cs)
  show ?case
    by (simp add: firstOccurrence_Cons Cons.IH split: option.splits)
qed

lemma replace_removeFirstOccurrence: "replace s pat [] = removeFirstOccurrence pat s"
  by (simp add: replace_def indexOf_def indexOfFrom_firstOccurrence removeFirstOccurrence_def
      split: option.splits)

lemma indexOfFrom_char:
  "indexOfFrom k s [c] =
     (if c \<in> set s then int (k + length (takeWhile (\<lambda>x. x \<noteq> c) s)) else - 1)"
  by (induction s arbitrary: k) auto

lemma substring_0: "substring s 0 (int n) = take n s"
  by (simp add: substring_def Let_def min_def max_def)

lemma truncate_code:
  "(if indexOf s [c] \<noteq> - 1 then substring s 0 (indexOf s [c]) else s) = truncateAt c s"
proof (cases "c \<in> set s")
  case True
  have "take (length (takeWhile (\<lambda>x. x \<noteq> c) s)) s = takeWhile (\<lambda>x. x \<noteq> c) s"
    by (rule takeWhile_eq_take [symmetric])
  with True show ?thesis
    by (simp add: indexOf_def indexOfFrom_char substring_0 truncateAt_def)
next
  case False
  then have "takeWhile (\<lambda>x. x \<noteq> c) s = s"
    by (auto simp: takeWhile_eq_all_conv)
  moreover from False have "indexOf s [c] = - 1"
    by (simp add: indexOf_def indexOfFrom_char)
  ultimately show ?thesis
    unfolding truncateAt_def by (simp only: if_False simp_thms)
qed

lemma call_replace_JStr:
  "call_replace (JStr s) pat [] = Inr (JStr (removeFirstOccurrence pat s))"
  by (simp add: call_replace_def replace_removeFirstOccurrence)

lemma truncate_call:
  "bindE (call_indexOf (JStr s) [c]) (\<lambda>i.
     bindE (if i \<noteq> - 1
            then bindE (call_indexOf (JStr s) [c]) (\<lambda>j. call_substring (JStr s) 0 j)
            else Inr (JStr s)) f) = f (JStr (truncateAt c s))"
proof (cases "indexOf s [c] = - 1")
  case True
  with truncate_code [of s c] have "truncateAt c s = s" by simp
  with True show ?thesis
    by (simp add: call_indexOf_def)
next
  case False
  with truncate_code [of s c] have "truncateAt c s = substring s 0 (indexOf s [c])" by simp
  with False show ?thesis
    by (simp add: call_indexOf_def call_substring_def)
qed

lemma upt_nth_Suc: "i \<le> n \<Longrightarrow> [0..<Suc n] ! i = i"
  by (metis add_0 le_imp_less_Suc nth_upt)

lemma firstOccurrence_least:
  assumes "i \<le> length s" and "occursAt pat s i" and "\<forall>j<i. \<not> occursAt pat s j"
  shows "firstOccurrence pat s = Some i"
proof -
  have "\<exists>k<length [0..<Suc (length s)].
          occursAt pat s ([0..<Suc (length s)] ! k) \<and> i = [0..<Suc (length s)] ! k \<and>
          (\<forall>j<k. \<not> occursAt pat s ([0..<Suc (length s)] ! j))"
  proof (intro exI [of _ i] conjI allI impI)
    show "i < length [0..<Suc (length s)]"
      using assms(1) by simp
    show "occursAt pat s ([0..<Suc (length s)] ! i)"
      using assms(1,2) by (simp only: upt_nth_Suc)
    show "i = [0..<Suc (length s)] ! i"
      using assms(1) by (simp only: upt_nth_Suc)
    fix j
    assume "j < i"
    with assms(1,3) show "\<not> occursAt pat s ([0..<Suc (length s)] ! j)"
      by (simp only: upt_nth_Suc) (metis less_or_eq_imp_le order.strict_trans2 upt_nth_Suc)
  qed
  then show ?thesis
    unfolding firstOccurrence_def find_Some_iff .
qed

lemma firstOccurrence_none:
  assumes "\<forall>i\<le>length s. \<not> occursAt pat s i"
  shows "firstOccurrence pat s = None"
  unfolding firstOccurrence_def find_None_iff
  using assms by auto

lemma replace_first:
  assumes "i \<le> length s" and "occursAt pat s i" and "\<forall>j<i. \<not> occursAt pat s j"
  shows "replace s pat [] = take i s @ drop (i + length pat) s"
  using firstOccurrence_least [OF assms]
  by (simp add: replace_removeFirstOccurrence removeFirstOccurrence_def)

lemma replace_none:
  assumes "\<forall>i\<le>length s. \<not> occursAt pat s i"
  shows "replace s pat [] = s"
  using firstOccurrence_none [OF assms]
  by (simp add: replace_removeFirstOccurrence removeFirstOccurrence_def)

lemma stripScheme_replace:
  "stripScheme s = replace (replace s ''http://'' []) ''https://'' []"
  by (simp add: stripScheme_def replace_removeFirstOccurrence)

lemma firstOccurrence_SomeD:
  assumes "firstOccurrence pat s = Some i"
  shows "i \<le> length s \<and> occursAt pat s i \<and> (\<forall>j<i. \<not> occursAt pat s j)"
proof -
  from assms obtain k where k: "k < length [0..<Suc (length s)]"
    and p: "occursAt pat s ([0..<Suc (length s)] ! k)"
    and i: "i = [0..<Suc (length s)] ! k"
    and least: "\<forall>j<k. \<not> occursAt pat s ([0..<Suc (length s)] ! j)"
    unfolding firstOccurrence_def find_Some_iff by blast
  from k have kl: "k \<le> length s"
    by simp
  with i have ik: "i = k"
    by (simp only: upt_nth_Suc)
  have "\<forall>j<i. \<not> occursAt pat s j"
  proof (intro allI impI)
    fix j
    assume "j < i"
    with ik kl have "j < k" and "j \<le> length s"
      by simp_all
    with least show "\<not> occursAt pat s j"
      by (metis upt_nth_Suc)
  qed
  moreover from p ik kl have "occursAt pat s i"
    by (simp only: upt_nth_Suc)
  ultimately show ?thesis
    using ik kl by simp
qed

lemma firstOccurrence_NoneD:
  assumes "firstOccurrence pat s = None"
  shows "\<forall>i\<le>length s. \<not> occursAt pat s i"
proof (intro allI impI)
  fix i
  assume "i \<le> length s"
  then have "i \<in> set [0..<Suc (length s)]"
    by auto
  with assms show "\<not> occursAt pat s i"
    unfolding firstOccurrence_def find_None_iff by blast
qed

subsection \<open>Base 36\<close>

lemma digitVal_digitChar: "d < 36 \<Longrightarrow> digitVal (digitChar d) = Some d"
proof -
  have "\<forall>d \<in> set [0..<36]. digitVal (digitChar d) = Some d"
    by code_simp
  then show "d < 36 \<Longrightarrow> digitVal (digitChar d) = Some d"
    by simp
qed

lemma digitChar_not_minus: "d < 36 \<Longrightarrow> digitChar d \<noteq> CHR ''-''"
proof -
  have "\<forall>d \<in> set [0..<36]. digitChar d \<noteq> CHR ''-''"
    by code_simp
  then show "d < 36 \<Longrightarrow> digitChar d \<noteq> CHR ''-''"
    by simp
qed

lemma natFromString_append:
  "natFromString r acc (xs @ ys) =
     (case natFromString r acc xs of None \<Rightarrow> None | Some a \<Rightarrow> natFromString r a ys)"
  by (induction xs arbitrary: acc) (auto split: option.splits)

lemma natFromString_natToString: "natFromString 36 0 (natToString 36 n) = Some n"
proof (induction "36::nat" n rule: natToString.induct)
  case (1 n)
  show ?case
  proof (cases "n < 36")
    case True
    then show ?thesis
      by (subst natToString.simps) (simp add: digitVal_digitChar)
  next
    case False
    with 1 have "natFromString 36 0 (natToString 36 (n div 36)) = Some (n div 36)"
      by simp
    with False show ?thesis
      by (subst natToString.simps) (simp add: natFromString_append digitVal_digitChar)
  qed
qed

lemma natToString_nonempty: "natToString r n \<noteq> []"
  by (subst natToString.simps) simp

lemma hd_natToString: "hd (natToString 36 n) \<noteq> CHR ''-''"
proof (induction "36::nat" n rule: natToString.induct)
  case (1 n)
  show ?case
  proof (cases "n < 36")
    case True
    then show ?thesis
      by (subst natToString.simps) (simp add: digitChar_not_minus)
  next
    case False
    with 1 have "hd (natToString 36 (n div 36)) \<noteq> CHR ''-''"
      by simp
    with False show ?thesis
      by (subst natToString.simps) (simp add: natToString_nonempty)
  qed
qed

lemma parseBase36_numberToString: "parseBase36 (numberToString 36 t) = Some t"
proof (cases "t < 0")
  case True
  then show ?thesis
    by (simp add: parseBase36_def numberToString_def natToString_nonempty
        natFromString_natToString)
next
  case False
  obtain c cs where s: "natToString 36 (nat t) = c # cs"
    using natToString_nonempty [of 36 "nat t"] by (cases "natToString 36 (nat t)") auto
  with hd_natToString [of "nat t"] have "c \<noteq> CHR ''-''"
    by simp
  with False s natFromString_natToString [of "nat t"] show ?thesis
    by (simp add: parseBase36_def numberToString_def)
qed

subsection \<open>The branches of handleReport\<close>

lemma handleReport_csp_strings:
  assumes cr: "getProp body ''csp-report'' = Inr cr"
    and bb: "getProp body ''body'' = Inr bb"
    and du: "getProp (if truthy cr then cr else bb) ''document-uri'' = Inr u"
    and bu: "getProp (if truthy cr then cr else bb) ''blocked-uri'' = Inr (JStr blocked)"
    and ed: "getProp (if truthy cr then cr else bb) ''effective-directive'' = Inr ed"
    and vd: "getProp (if truthy cr then cr else bb) ''violated-directive'' = Inr vd"
    and dir: "(if truthy ed then ed else vd) = JStr directive"
  shows "handleReport_csp J body t =
           Inr (Some u, Some (NormalizedError ''Content Security Policy'' (numberToString 36 t)
                  (truncateAt CHR '' '' directive @ '': '' @
                   truncateAt CHR ''/'' (stripScheme blocked))))"
proof -
  have c: "(if truthy cr then Inr cr else getProp body ''body'')
             = (Inr (if truthy cr then cr else bb) :: js_error + jsval)"
    by (simp add: bb)
  have d: "(if truthy ed then Inr ed
            else getProp (if truthy cr then cr else bb) ''violated-directive'')
             = (Inr (JStr directive) :: js_error + jsval)"
    using dir by (simp add: vd split: if_splits)
  show ?thesis
    unfolding handleReport_csp_def cr bindE_Inr c du bu call_replace_JStr truncate_call ed d
    by (simp add: NormalizedError_def stripScheme_def INCLUDE_FULL_REPORT_def)
qed

lemma csp_branch:
  assumes "body \<noteq> JUndefined" and "body \<noteq> JNull"
    and "csp = (if truthy (field body ''csp-report'') then field body ''csp-report''
                else field body ''body'')"
    and "csp \<noteq> JUndefined" and "csp \<noteq> JNull"
    and "field csp ''blocked-uri'' = JStr blocked"
    and "(if truthy (field csp ''effective-directive'') then field csp ''effective-directive''
          else field csp ''violated-directive'') = JStr directive"
  shows "handleReport_csp J body t =
           Inr (Some (field csp ''document-uri''),
                Some (NormalizedError ''Content Security Policy'' (numberToString 36 t)
                  (truncateAt CHR '' '' directive @ '': '' @
                   truncateAt CHR ''/'' (stripScheme blocked))))"
proof (rule handleReport_csp_strings)
  show "getProp body ''csp-report'' = Inr (field body ''csp-report'')"
    using assms(1,2) by (simp add: getProp_field)
  show "getProp body ''body'' = Inr (field body ''body'')"
    using assms(1,2) by (simp add: getProp_field)
  show "getProp (if truthy (field body ''csp-report'') then field body ''csp-report''
                 else field body ''body'') ''document-uri'' = Inr (field csp ''document-uri'')"
    using assms(3,4,5) by (simp add: getProp_field)
  show "getProp (if truthy (field body ''csp-report'') then field body ''csp-report''
                 else field body ''body'') ''blocked-uri'' = Inr (JStr blocked)"
    using assms(3,4,5,6) by (simp add: getProp_field)
  show "getProp (if truthy (field body ''csp-report'') then field body ''csp-report''
                 else field body ''body'') ''effective-directive''
          = Inr (field csp ''effective-directive'')"
    using assms(3,4,5) by (simp add: getProp_field)
  show "getProp (if truthy (field body ''csp-report'') then field body ''csp-report''
                 else field body ''body'') ''violated-directive''
          = Inr (field csp ''violated-directive'')"
    using assms(3,4,5) by (simp add: getProp_field)
  show "(if truthy (field csp ''effective-directive'') then field csp ''effective-directive''
          else field csp ''violated-directive'') = JStr directive"
    by (rule assms(7))
qed

lemma xss_branch:
  assumes "body \<noteq> JUndefined" and "body \<noteq> JNull"
    and "field body ''xss-report'' = xss" and "xss \<noteq> JUndefined" and "xss \<noteq> JNull"
    and "field xss ''request-url'' = JStr s"
  shows "handleReport_xss J body t =
           Inr (None, Some (NormalizedError ''XSS Report'' (numberToString 36 t) (stripScheme s)))"
  using assms
  by (simp add: handleReport_xss_def getProp_field call_replace_JStr NormalizedError_def
      stripScheme_def INCLUDE_FULL_REPORT_def)

lemma csp_shape:
  "handleReport_csp J body t = Inr p \<Longrightarrow> recordShape ''Content Security Policy'' t p"
  unfolding handleReport_csp_def
  by (elim bindE_InrE) (auto simp: recordShape_def recordOf_def INCLUDE_FULL_REPORT_def)

lemma nel_shape:
  "handleReport_nel J body t = Inr p \<Longrightarrow> recordShape ''Network Error Logging'' t p"
  unfolding handleReport_nel_def
  by (elim bindE_InrE) (auto simp: recordShape_def recordOf_def INCLUDE_FULL_REPORT_def)

lemma deprecation_shape:
  "handleReport_deprecation J body t = Inr p \<Longrightarrow> recordShape ''Deprecation'' t p"
  unfolding handleReport_deprecation_def
  by (elim bindE_InrE) (auto simp: recordShape_def recordOf_def INCLUDE_FULL_REPORT_def)

lemma intervention_shape:
  "handleReport_intervention J body t = Inr p \<Longrightarrow> recordShape ''Intervention'' t p"
  unfolding handleReport_intervention_def
  by (elim bindE_InrE) (auto simp: recordShape_def recordOf_def INCLUDE_FULL_REPORT_def)

lemma crash_shape:
  "handleReport_crash J body t = Inr p \<Longrightarrow> recordShape ''Crash'' t p"
  unfolding handleReport_crash_def
  by (elim bindE_InrE) (auto simp: recordShape_def recordOf_def INCLUDE_FULL_REPORT_def)

lemma feature_policy_shape:
  "handleReport_feature_policy J body t = Inr p
     \<Longrightarrow> recordShape ''Feature Policy Violation'' t p"
  unfolding handleReport_feature_policy_def
  by (elim bindE_InrE) (auto simp: recordShape_def recordOf_def INCLUDE_FULL_REPORT_def)

lemma xss_shape:
  "handleReport_xss J body t = Inr p \<Longrightarrow> recordShape ''XSS Report'' t p"
  unfolding handleReport_xss_def
  by (elim bindE_InrE) (auto simp: recordShape_def recordOf_def INCLUDE_FULL_REPORT_def)

lemma expect_ct_shape:
  "handleReport_expect_ct body t = Inr p \<Longrightarrow> recordShape ''Expect-CT'' t p"
  unfolding handleReport_expect_ct_def
  by (elim bindE_InrE) (auto simp: recordShape_def recordOf_def)

subsection \<open>The chain of tests\<close>

lemma processPayload_chain:
  assumes "body \<noteq> JUndefined" and "body \<noteq> JNull"
  shows "processPayload J body t =
     (if field body ''type'' = JStr ''csp'' \<or> truthy (field body ''csp-report'')
      then handleReport_csp J body t
      else if field body ''type'' = JStr ''network-error'' then handleReport_nel J body t
      else if field body ''type'' = JStr ''deprecation'' then handleReport_deprecation J body t
      else if field body ''type'' = JStr ''intervention'' then handleReport_intervention J body t
      else if field body ''type'' = JStr ''crash'' then handleReport_crash J body t
      else if field body ''type'' = JStr ''feature-policy-violation''
        then handleReport_feature_policy J body t
      else if truthy (field body ''xss-report'') then handleReport_xss J body t
      else if truthy (field body ''expect-ct-report'') then handleReport_expect_ct body t
      else Inr (None, None))"
  using assms by (simp add: processPayload_def typeIs_def hasMarker_def getProp_field)

lemma processPayload_null:
  "body = JUndefined \<or> body = JNull \<Longrightarrow> processPayload J body t = Inl TypeError"
  by (auto simp: processPayload_def typeIs_def getProp_def)

lemma processPayload_dispatch:
  assumes "body \<noteq> JUndefined" and "body \<noteq> JNull"
  shows "processPayload J body t = dispatch J (classify_source_order body) body t"
  using assms
  by (simp add: processPayload_chain classify_source_order_def kindOfType_def dispatch_def)

lemma dispatch_shape:
  assumes "dispatch J k body t = Inr p" and "kindTitle k = Some title"
  shows "recordShape title t p"
  using assms
  by (cases k)
    (auto simp: dispatch_def dest: csp_shape nel_shape deprecation_shape intervention_shape
      crash_shape feature_policy_shape xss_shape expect_ct_shape)

lemma recordShape_title: "recordShape title t p \<Longrightarrow> titleOf p = Some title"
  by (auto simp: recordShape_def titleOf_def split: option.splits)

lemma dispatch_title:
  assumes "dispatch J k body t = Inr p"
  shows "titleOf p = kindTitle k"
proof (cases "k = Unknown")
  case True
  with assms show ?thesis
    by (auto simp: dispatch_def titleOf_def)
next
  case False
  then obtain title where kt: "kindTitle k = Some title"
    by (cases k) auto
  with assms have "recordShape title t p"
    by (rule dispatch_shape)
  then have "titleOf p = Some title"
    by (rule recordShape_title)
  with kt show ?thesis
    by simp
qed

lemma dispatch_json_stringify: "dispatch J k body t = dispatch J' k body t"
  by (cases k)
    (simp_all add: dispatch_def handleReport_csp_def handleReport_nel_def
      handleReport_deprecation_def handleReport_intervention_def handleReport_crash_def
      handleReport_feature_policy_def handleReport_xss_def INCLUDE_FULL_REPORT_def)

lemma processPayload_json_stringify: "processPayload J body t = processPayload J' body t"
proof (cases "body = JUndefined \<or> body = JNull")
  case True
  then show ?thesis
    by (simp only: processPayload_null)
next
  case False
  then show ?thesis
    by (simp add: processPayload_dispatch dispatch_json_stringify [of J _ _ _ J'])
qed

lemma processPayload_shape:
  assumes "processPayload J body t = Inr (u, Some e)"
  shows "\<exists>title. kindTitle (classify_source_order body) = Some title \<and>
           recordShape title t (u, Some e)"
proof -
  from assms have nn: "body \<noteq> JUndefined" "body \<noteq> JNull"
    by (auto simp: processPayload_null)
  with assms have d: "dispatch J (classify_source_order body) body t = Inr (u, Some e)"
    by (simp add: processPayload_dispatch)
  then have "classify_source_order body \<noteq> Unknown"
    by (auto simp: dispatch_def)
  then obtain title where kt: "kindTitle (classify_source_order body) = Some title"
    by (cases "classify_source_order body") auto
  with d have "recordShape title t (u, Some e)"
    by (rule dispatch_shape)
  with kt show ?thesis
    by blast
qed

lemma recordShapeE:
  assumes "recordShape title t p"
  obtains e kvs where "snd p = Some e" and "recordOf e = Some kvs"
    and "map_of kvs ''v'' = Some (JNum 0)" and "map_of kvs ''t'' = Some (JStr title)"
    and "map_of kvs ''d'' = Some (JStr (numberToString 36 t))"
    and "map_of kvs ''f'' = None \<or> map_of kvs ''f'' = Some JUndefined"
  using assms unfolding recordShape_def
  by (auto split: option.splits)

lemma kindTitle_titles: "kindTitle k = Some title \<Longrightarrow> title \<in> set titles"
  by (cases k) (auto simp: titles_def)

subsection \<open>handleReport and the loop\<close>

lemma handleReport_payload:
  "handleReport L body ua ip t =
     bindE (processPayload (JSON_stringify L) body t) (\<lambda>p.
       Inr ((baseData ua ip t)
              \<lparr>data_u := fst p, data_err := map_option (JSURL_stringify L) (snd p)\<rparr>))"
  by (cases "processPayload (JSON_stringify L) body t")
    (simp_all add: handleReport_def baseData_def Let_def case_prod_beta)

lemma handleReport_InrE:
  assumes "handleReport L body ua ip t = Inr d"
  obtains p where "processPayload (JSON_stringify L) body t = Inr p"
    and "d = (baseData ua ip t)
               \<lparr>data_u := fst p, data_err := map_option (JSURL_stringify L) (snd p)\<rparr>"
  using assms unfolding handleReport_payload by (elim bindE_InrE) auto

lemma handleReports_all_sent:
  assumes "length ds = length rs"
    and "\<forall>j<length rs. handleReport L (rs ! j) ua ip (now (i + j)) = Inr (ds ! j)"
  shows "handleReports L ua ip now i rs n = (ds, Inr (n + length rs))"
  using assms
proof (induction rs arbitrary: i n ds)
  case Nil
  then show ?case by simp
next
  case (Cons r rs)
  then obtain d ds' where ds: "ds = d # ds'"
    by (cases ds) auto
  from Cons.prems(2) ds have hd: "handleReport L r ua ip (now i) = Inr d"
    by fastforce
  have "\<forall>j<length rs. handleReport L (rs ! j) ua ip (now (Suc i + j)) = Inr (ds' ! j)"
  proof (intro allI impI)
    fix j
    assume "j < length rs"
    with Cons.prems(2) [rule_format, of "Suc j"] ds
    show "handleReport L (rs ! j) ua ip (now (Suc i + j)) = Inr (ds' ! j)"
      by simp
  qed
  with Cons.IH [of ds' "Suc i" "Suc n"] Cons.prems(1) ds
  have "handleReports L ua ip now (Suc i) rs (Suc n) = (ds', Inr (Suc n + length rs))"
    by simp
  with hd ds show ?case
    by simp
qed


subsection \<open>The route\<close>

lemma route_validated:
  assumes "validated appLookup request"
  shows "route L appLookup now apps request =
     (case req_body request of
        JArr reports \<Rightarrow>
          (case handleReports L (req_user_agent request) (clientIp request) now 0 reports 0 of
             (sent, Inl e) \<Rightarrow> (appsAfter apps request, sent, Inl e)
           | (sent, Inr n) \<Rightarrow> (appsAfter apps request, sent, Inr (ReplySuccess n)))
      | _ \<Rightarrow>
          (case handleReport L (req_body request) (req_user_agent request)
                  (clientIp request) (now 0) of
             Inl e \<Rightarrow> (appsAfter apps request, [], Inl e)
           | Inr d \<Rightarrow> (appsAfter apps request, [d], Inr (ReplySuccess 1))))"
proof (cases "req_apiKey request")
  case None
  with assms show ?thesis
    by (simp add: validated_def)
next
  case (Some apiKey)
  have a: "appsAfter apps request =
             (if apiKey \<in> set apps \<or> apiKey \<in> set objectPrototypeNames then apps
              else apiKey # apps)"
    using Some by (simp add: appsAfter_def)
  from assms Some have v: "truthy (req_body request)" "apiKey \<noteq> []"
    "truthy (plainGet appLookup apiKey)"
    by (simp_all add: validated_def)
  show ?thesis
    unfolding route_def clientIp_def Let_def Some option.case a
    using v by (simp split: jsval.splits)
qed

lemma route_rejected:
  assumes "\<not> validated appLookup request"
  shows "\<exists>msg. route L appLookup now apps request = (apps, [], Inr (ReplyError msg))"
  using assms
  by (cases "req_apiKey request") (auto simp: route_def validated_def Let_def)

subsection \<open>Conversion to strings\<close>

lemma Inl_TypeError: "(r = Inl e) = (r = (Inl TypeError :: js_error + 'a))"
  by (cases e) simp

lemma sequenceE_map_Inr: "sequenceE (map Inr xs) = Inr xs"
  by (induction xs) simp_all

lemma sequenceE_all_Inr:
  "\<forall>r\<in>set rs. \<exists>x. r = Inr x \<Longrightarrow> \<exists>xs. sequenceE rs = Inr xs"
proof (induction rs)
  case Nil
  show ?case by simp
next
  case (Cons r rs)
  then obtain x xs where "r = Inr x" and "sequenceE rs = Inr xs"
    by auto
  then show ?case by simp
qed


lemma ToString_primitive: "isPrimitive v \<Longrightarrow> \<exists>s. ToString v = Inr s"
  by (cases v) (simp_all add: isPrimitive_def)

lemma ToString_own_toString:
  "map_of kvs ''toString'' \<noteq> None \<Longrightarrow> ToString (JObj kvs) = Inl TypeError"
  by simp

lemma messageOf_primitive:
  assumes "\<forall>p\<in>set (partsOf k b). isPrimitive p"
  shows "\<exists>m. messageOf k b = Inr m"
proof -
  from assms have "\<forall>r\<in>set (map ToString (partsOf k b)). \<exists>x. r = Inr x"
    by (auto dest: ToString_primitive)
  then obtain ss where "sequenceE (map ToString (partsOf k b)) = Inr ss"
    using sequenceE_all_Inr by blast
  then show ?thesis
    by (simp add: messageOf_def)
qed




subsection \<open>Raising and degrading\<close>
















lemma route_batch:
  assumes "validated appLookup request" and "req_body request = JArr rs"
  shows "route L appLookup now apps request =
     (case handleReports L (req_user_agent request) (clientIp request) now 0 rs 0 of
        (sent, Inl e) \<Rightarrow> (appsAfter apps request, sent, Inl e)
      | (sent, Inr n) \<Rightarrow> (appsAfter apps request, sent, Inr (ReplySuccess n)))"
  using assms by (simp add: route_validated)

lemma route_single:
  assumes "validated appLookup request" and "\<forall>rs. req_body request \<noteq> JArr rs"
  shows "route L appLookup now apps request =
     (case handleReport L (req_body request) (req_user_agent request)
                  (clientIp request) (now 0) of
        Inl e \<Rightarrow> (appsAfter apps request, [], Inl e)
      | Inr d \<Rightarrow> (appsAfter apps request, [d], Inr (ReplySuccess 1)))"
  using assms by (cases "req_body request") (simp_all add: route_validated)

lemma route_request_level_errors:
  assumes "\<not> truthy (req_body request) \<or> req_apiKey request = None \<or>
           req_apiKey request = Some [] \<or>
           (\<exists>apiKey. req_apiKey request = Some apiKey \<and> map_of appLookup apiKey = None \<and>
                     apiKey \<notin> set objectPrototypeNames)"
  shows "\<exists>msg. route L appLookup now apps request = (apps, [], Inr (ReplyError msg))"
proof (rule route_rejected)
  from assms show "\<not> validated appLookup request"
    by (auto simp: validated_def plainGet_def)
qed

subsection \<open>The blocked host\<close>






subsection \<open>Messages and payloads\<close>







subsection \<open>Evaluation at concrete inputs\<close>

lemmas eval_strings =
  stripScheme_def removeFirstOccurrence_def firstOccurrence_Cons firstOccurrence_Nil
  truncateAt_def

lemmas eval_numbers = numberToString_def natToString.simps digitChar_def

lemma blocked_uri_examples:
  "truncateAt CHR ''/'' (stripScheme ''https://evil.com/path/x'') = ''evil.com''"
  "truncateAt CHR ''/'' (stripScheme ''https://evil.com'') = ''evil.com''"
  "truncateAt CHR ''/'' (stripScheme ''inline'') = ''inline''"
  by (simp_all add: eval_strings)

lemma sampleNelWithCspMarker_payload:
  "processPayload J sampleNelWithCspMarker 0 =
     Inr (Some (JStr ''https://site.example/page''),
          Some (NormalizedError ''Content Security Policy'' ''0'' ''img-src: evil.example''))"
proof -
  let ?csp = "JObj [(''document-uri'', JStr ''https://site.example/page''),
                    (''blocked-uri'', JStr ''https://evil.example/x.png''),
                    (''violated-directive'', JStr ''img-src https://cdn.example'')]"
  have m: "truncateAt CHR '' '' ''img-src https://cdn.example'' @ '': '' @
           truncateAt CHR ''/'' (stripScheme ''https://evil.example/x.png'') = ''img-src: evil.example''"
    by (simp add: eval_strings)
  have d: "numberToString 36 0 = ''0''"
    by (simp add: eval_numbers)
  have "processPayload J sampleNelWithCspMarker 0 = handleReport_csp J sampleNelWithCspMarker 0"
    by (simp add: processPayload_chain sampleNelWithCspMarker_def field_def)
  also have "\<dots> = Inr (Some (field ?csp ''document-uri''),
                Some (NormalizedError ''Content Security Policy'' (numberToString 36 0)
                  (truncateAt CHR '' '' ''img-src https://cdn.example'' @ '': '' @
                   truncateAt CHR ''/'' (stripScheme ''https://evil.example/x.png''))))"
    by (rule csp_branch [where csp = ?csp]) (simp_all add: sampleNelWithCspMarker_def field_def)
  finally show ?thesis
    unfolding m d by (simp add: field_def)
qed

lemma sampleCrash_payload:
  "processPayload J sampleCrash t =
     Inr (Some (JStr ''https://site.example/''),
          Some (NormalizedError ''Crash'' (numberToString 36 t) ''oom''))"
  by (simp add: processPayload_chain sampleCrash_def field_def handleReport_crash_def
      getProp_def NormalizedError_def INCLUDE_FULL_REPORT_def)

lemma sampleCrash_beacon:
  "handleReport L sampleCrash ua ip t =
     Inr \<lparr>rt_tstart = t, rt_end = t, http_initiator = ''error'', data_ua = ua, data_ip = ip,
          data_u = Some (JStr ''https://site.example/''),
          data_err = Some (JSURL_stringify L
            (NormalizedError ''Crash'' (numberToString 36 t) ''oom''))\<rparr>"
  by (simp add: handleReport_payload sampleCrash_payload baseData_def)

lemma sampleCrash_kind: "classify_source_order sampleCrash = Crash"
  by (simp add: classify_source_order_def kindOfType_def sampleCrash_def field_def)

lemma sampleUnknown_kind: "classify_source_order sampleUnknown = Unknown"
  by (simp add: classify_source_order_def kindOfType_def sampleUnknown_def field_def)

lemma sample_timestamp: "numberToString 36 1730000000000 = ''m2r1bz7k''"
  by (simp add: eval_numbers)

lemma sampleRequest_validated:
  "body \<noteq> JUndefined \<Longrightarrow> body \<noteq> JNull \<Longrightarrow> truthy body
     \<Longrightarrow> validated exampleAppLookup (sampleRequest body ''ABCDE-12345'')"
  by (simp add: validated_def sampleRequest_def exampleAppLookup_def plainGet_def)

lemma sampleUnknown_beacon:
  "handleReport L sampleUnknown ua ip t = Inr (baseData ua ip t)"
proof -
  have "sampleUnknown \<noteq> JUndefined" and "sampleUnknown \<noteq> JNull"
    by (simp_all add: sampleUnknown_def)
  then have "processPayload (JSON_stringify L) sampleUnknown t = Inr (None, None)"
    by (simp add: processPayload_dispatch sampleUnknown_kind dispatch_def)
  then show ?thesis
    by (simp add: handleReport_payload baseData_def)
qed




lemma sampleCspNoPayload_raises:
  "handleReport L sampleCspNoPayload ua ip t = Inl TypeError"
  by (simp add: handleReport_payload processPayload_chain sampleCspNoPayload_def field_def
      handleReport_csp_def getProp_def)

lemma sampleRequest_fields:
  "req_body (sampleRequest body key) = body"
  "req_user_agent (sampleRequest body key) = JStr ''Mozilla/5.0''"
  "clientIp (sampleRequest body key) = JStr ''203.0.113.9''"
  "appsAfter [] (sampleRequest body ''ABCDE-12345'') = [''ABCDE-12345'']"
  "appsAfter [] (sampleRequest body ''constructor'') = []"
  by (simp_all add: sampleRequest_def clientIp_def appsAfter_def objectPrototypeNames_def)

lemma sample_clock:
  "numberToString 36 (exampleClock 0) = ''m2r1bz7k''"
  "numberToString 36 (exampleClock (Suc 0)) = ''m2r1bz7l''"
  by (simp_all add: exampleClock_def eval_numbers)









section \<open>The claims\<close>








text \<open>
  C3, as the code has it. For every report other than \<open>null\<close> and \<open>undefined\<close>, the
  chain of tests picks the normalizer in the order of the source: CSP when \<open>type\<close> is
  \<open>"csp"\<close> or the \<open>csp-report\<close> marker is truthy; else the kind that \<open>type\<close> names;
  else XSS or Expect-CT by their markers; else unknown. So a truthy \<open>csp-report\<close>
  marker wins over every \<open>type\<close>, while without it the \<open>type\<close> discriminator comes
  first and the other two markers are consulted only when \<open>type\<close> selects no
  normalizer. An unknown report yields no \<open>u\<close> and no record, and no exception.
\<close>

theorem classification_in_source_order:
  assumes "body \<noteq> JUndefined" and "body \<noteq> JNull"
  shows "processPayload J body t = dispatch J (classify_source_order body) body t
     \<and> (\<forall>p. processPayload J body t = Inr p
            \<longrightarrow> titleOf p = kindTitle (classify_source_order body))
     \<and> (truthy (field body ''csp-report'') \<longrightarrow> classify_source_order body = CSP)
     \<and> (\<not> truthy (field body ''csp-report'')
            \<longrightarrow> classify_source_order body = classify_type_first body)
     \<and> (classify_source_order body = Unknown \<longrightarrow> processPayload J body t = Inr (None, None))"
proof (intro conjI allI impI)
  show d: "processPayload J body t = dispatch J (classify_source_order body) body t"
    using assms by (rule processPayload_dispatch)
  show "titleOf p = kindTitle (classify_source_order body)"
    if "processPayload J body t = Inr p" for p
    using that unfolding d by (rule dispatch_title)
  show "classify_source_order body = CSP" if "truthy (field body ''csp-report'')"
    using that by (simp add: classify_source_order_def)
  show "classify_source_order body = classify_type_first body"
    if "\<not> truthy (field body ''csp-report'')"
    using that
    by (simp add: classify_source_order_def classify_type_first_def kindOfType_def)
  show "processPayload J body t = Inr (None, None)" if "classify_source_order body = Unknown"
    using that unfolding d by (simp add: dispatch_def)
qed

theorem classification_in_source_order_witness:
  "titleOf (Some (JStr ''https://site.example/page''),
            Some (NormalizedError ''Content Security Policy'' ''0'' ''img-src: evil.example''))
     = kindTitle CSP
   \<and> classify_source_order sampleNelWithCspMarker = CSP
   \<and> classify_source_order sampleCrash = classify_type_first sampleCrash
   \<and> processPayload (JSON_stringify exampleExternals) sampleUnknown 0 = Inr (None, None)"
proof (intro conjI)
  have nn: "sampleNelWithCspMarker \<noteq> JUndefined" "sampleNelWithCspMarker \<noteq> JNull"
    by (simp_all add: sampleNelWithCspMarker_def)
  have c: "classify_source_order sampleNelWithCspMarker = CSP"
    using classification_in_source_order [OF nn]
    by (simp add: sampleNelWithCspMarker_def field_def)
  show "classify_source_order sampleNelWithCspMarker = CSP"
    by (rule c)
  from classification_in_source_order [OF nn, of "JSON_stringify exampleExternals" 0]
  have "titleOf p = kindTitle (classify_source_order sampleNelWithCspMarker)"
    if "processPayload (JSON_stringify exampleExternals) sampleNelWithCspMarker 0 = Inr p" for p
    using that by blast
  from this [OF sampleNelWithCspMarker_payload]
  show "titleOf (Some (JStr ''https://site.example/page''),
            Some (NormalizedError ''Content Security Policy'' ''0'' ''img-src: evil.example''))
     = kindTitle CSP"
    unfolding c .
  have cn: "sampleCrash \<noteq> JUndefined" "sampleCrash \<noteq> JNull"
    by (simp_all add: sampleCrash_def)
  show "classify_source_order sampleCrash = classify_type_first sampleCrash"
    using classification_in_source_order [OF cn]
    by (simp add: sampleCrash_def field_def)
  have un: "sampleUnknown \<noteq> JUndefined" "sampleUnknown \<noteq> JNull"
    by (simp_all add: sampleUnknown_def)
  have "classify_source_order sampleUnknown = Unknown"
    by (simp add: classify_source_order_def kindOfType_def sampleUnknown_def field_def)
  with classification_in_source_order [OF un, of "JSON_stringify exampleExternals" 0]
  show "processPayload (JSON_stringify exampleExternals) sampleUnknown 0 = Inr (None, None)"
    by blast
qed

text \<open>
  C3 as stated fails: a report whose \<open>type\<close> is \<open>"network-error"\<close> and which also has a
  \<open>csp-report\<close> marker is network-error by the rule "type first", and the code
  normalizes it as a CSP report.
\<close>

theorem type_first_counterexample:
  "classify_type_first sampleNelWithCspMarker = NEL
   \<and> kindTitle NEL = Some ''Network Error Logging''
   \<and> processPayload (JSON_stringify exampleExternals) sampleNelWithCspMarker 0 =
       Inr (Some (JStr ''https://site.example/page''),
            Some (NormalizedError ''Content Security Policy'' ''0'' ''img-src: evil.example''))
   \<and> titleOf (Some (JStr ''https://site.example/page''),
              Some (NormalizedError ''Content Security Policy'' ''0'' ''img-src: evil.example''))
       = Some ''Content Security Policy''"
proof (intro conjI)
  show "classify_type_first sampleNelWithCspMarker = NEL"
    by (simp add: classify_type_first_def kindOfType_def sampleNelWithCspMarker_def field_def)
  show "kindTitle NEL = Some ''Network Error Logging''"
    by simp
  show "processPayload (JSON_stringify exampleExternals) sampleNelWithCspMarker 0 =
       Inr (Some (JStr ''https://site.example/page''),
            Some (NormalizedError ''Content Security Policy'' ''0'' ''img-src: evil.example''))"
    by (rule sampleNelWithCspMarker_payload)
  show "titleOf (Some (JStr ''https://site.example/page''),
              Some (NormalizedError ''Content Security Policy'' ''0'' ''img-src: evil.example''))
       = Some ''Content Security Policy''"
    by (simp add: titleOf_def recordOf_def NormalizedError_def)
qed

text \<open>
  C5, as the code has it. For a request that passes validation and whose body is an
  array of \<open>n\<close> reports on none of which handleReport throws, every element goes through
  handleReport in order, each at its own capture time, one beacon is sent per element,
  and the reply is \<open>handled: n\<close>, whatever the kinds (unknown reports included). A
  body that is not an array, on which handleReport does not throw, is a batch of one:
  one beacon and \<open>handled: 1\<close>.
\<close>

theorem batch_handled_count:
  "(validated appLookup request \<and> req_body request = JArr rs \<and> length ds = length rs \<and>
    (\<forall>j<length rs. handleReport L (rs ! j) (req_user_agent request) (clientIp request) (now j) =
                     Inr (ds ! j))
      \<longrightarrow> route L appLookup now apps request =
            (appsAfter apps request, ds, Inr (ReplySuccess (length rs))))
   \<and> (validated appLookup request \<and> req_body request = JArr rs \<and>
      (\<forall>j<length rs. rs ! j \<noteq> JUndefined \<and> rs ! j \<noteq> JNull \<and>
                      classify_source_order (rs ! j) = Unknown)
      \<longrightarrow> route L appLookup now apps request =
            (appsAfter apps request,
             map (\<lambda>j. baseData (req_user_agent request) (clientIp request) (now j))
               [0..<length rs],
             Inr (ReplySuccess (length rs))))
   \<and> (validated appLookup request \<and> (\<forall>rs. req_body request \<noteq> JArr rs) \<and>
      handleReport L (req_body request) (req_user_agent request) (clientIp request) (now 0) =
        Inr d
      \<longrightarrow> route L appLookup now apps request =
            (appsAfter apps request, [d], Inr (ReplySuccess 1)))"
proof (intro conjI impI)
  assume h: "validated appLookup request \<and> req_body request = JArr rs \<and>
    length ds = length rs \<and>
    (\<forall>j<length rs. handleReport L (rs ! j) (req_user_agent request) (clientIp request) (now j) =
                     Inr (ds ! j))"
  then have "handleReports L (req_user_agent request) (clientIp request) now 0 rs 0 =
               (ds, Inr (0 + length rs))"
    by (intro handleReports_all_sent) simp_all
  with h show "route L appLookup now apps request =
            (appsAfter apps request, ds, Inr (ReplySuccess (length rs)))"
    by (simp add: route_batch)
next
  let ?ds = "map (\<lambda>j. baseData (req_user_agent request) (clientIp request) (now j))
               [0..<length rs]"
  assume h: "validated appLookup request \<and> req_body request = JArr rs \<and>
      (\<forall>j<length rs. rs ! j \<noteq> JUndefined \<and> rs ! j \<noteq> JNull \<and>
                      classify_source_order (rs ! j) = Unknown)"
  have "handleReport L (rs ! j) (req_user_agent request) (clientIp request) (now (0 + j)) =
          Inr (?ds ! j)" if "j < length rs" for j
  proof -
    from h that have "rs ! j \<noteq> JUndefined" and "rs ! j \<noteq> JNull"
      and "classify_source_order (rs ! j) = Unknown"
      by simp_all
    then have "processPayload (JSON_stringify L) (rs ! j) (now j) = Inr (None, None)"
      by (simp add: processPayload_dispatch dispatch_def)
    with that show ?thesis
      by (simp add: handleReport_payload baseData_def)
  qed
  then have "handleReports L (req_user_agent request) (clientIp request) now 0 rs 0 =
               (?ds, Inr (0 + length rs))"
    by (intro handleReports_all_sent) simp_all
  with h show "route L appLookup now apps request =
            (appsAfter apps request, ?ds, Inr (ReplySuccess (length rs)))"
    by (simp add: route_batch)
next
  assume "validated appLookup request \<and> (\<forall>rs. req_body request \<noteq> JArr rs) \<and>
      handleReport L (req_body request) (req_user_agent request) (clientIp request) (now 0) =
        Inr d"
  then show "route L appLookup now apps request =
            (appsAfter apps request, [d], Inr (ReplySuccess 1))"
    by (simp add: route_single)
qed

theorem batch_handled_count_witness:
  "route exampleExternals exampleAppLookup exampleClock []
     (sampleRequest (JArr [sampleCrash, sampleUnknown]) ''ABCDE-12345'') =
     ([''ABCDE-12345''],
      [\<lparr>rt_tstart = 1730000000000, rt_end = 1730000000000, http_initiator = ''error'',
        data_ua = JStr ''Mozilla/5.0'', data_ip = JStr ''203.0.113.9'',
        data_u = Some (JStr ''https://site.example/''),
        data_err = Some (JSURL_stringify exampleExternals
          (NormalizedError ''Crash'' ''m2r1bz7k'' ''oom''))\<rparr>,
       \<lparr>rt_tstart = 1730000000001, rt_end = 1730000000001, http_initiator = ''error'',
        data_ua = JStr ''Mozilla/5.0'', data_ip = JStr ''203.0.113.9'',
        data_u = None, data_err = None\<rparr>],
      Inr (ReplySuccess 2))
   \<and> route exampleExternals exampleAppLookup exampleClock []
       (sampleRequest sampleCrash ''ABCDE-12345'') =
     ([''ABCDE-12345''],
      [\<lparr>rt_tstart = 1730000000000, rt_end = 1730000000000, http_initiator = ''error'',
        data_ua = JStr ''Mozilla/5.0'', data_ip = JStr ''203.0.113.9'',
        data_u = Some (JStr ''https://site.example/''),
        data_err = Some (JSURL_stringify exampleExternals
          (NormalizedError ''Crash'' ''m2r1bz7k'' ''oom''))\<rparr>],
      Inr (ReplySuccess 1))"
proof (intro conjI)
  let ?ua = "JStr ''Mozilla/5.0''" and ?ip = "JStr ''203.0.113.9''"
  let ?rs = "[sampleCrash, sampleUnknown]"
  let ?req = "sampleRequest (JArr ?rs) ''ABCDE-12345''"
  let ?d0 = "\<lparr>rt_tstart = 1730000000000, rt_end = 1730000000000, http_initiator = ''error'',
        data_ua = ?ua, data_ip = ?ip,
        data_u = Some (JStr ''https://site.example/''),
        data_err = Some (JSURL_stringify exampleExternals
          (NormalizedError ''Crash'' ''m2r1bz7k'' ''oom''))\<rparr>"
  let ?d1 = "\<lparr>rt_tstart = 1730000000001, rt_end = 1730000000001, http_initiator = ''error'',
        data_ua = ?ua, data_ip = ?ip, data_u = None, data_err = None\<rparr>"
  have v: "validated exampleAppLookup ?req"
    by (rule sampleRequest_validated) simp_all
  have e0: "handleReport exampleExternals sampleCrash ?ua ?ip (exampleClock 0) = Inr ?d0"
    by (simp add: sampleCrash_beacon sample_clock) (simp add: exampleClock_def)
  have e1: "handleReport exampleExternals sampleUnknown ?ua ?ip (exampleClock (Suc 0)) = Inr ?d1"
    by (simp add: sampleUnknown_beacon baseData_def exampleClock_def)
  have "\<forall>j<length ?rs. handleReport exampleExternals (?rs ! j) (req_user_agent ?req)
                 (clientIp ?req) (exampleClock j) = Inr ([?d0, ?d1] ! j)"
    using e0 e1 by (simp add: sampleRequest_fields less_Suc_eq)
  with v have "validated exampleAppLookup ?req \<and> req_body ?req = JArr ?rs \<and>
      length [?d0, ?d1] = length ?rs \<and>
      (\<forall>j<length ?rs. handleReport exampleExternals (?rs ! j) (req_user_agent ?req)
                 (clientIp ?req) (exampleClock j) = Inr ([?d0, ?d1] ! j))"
    by (simp add: sampleRequest_fields)
  with batch_handled_count [where appLookup = exampleAppLookup and request = ?req
      and rs = ?rs and ds = "[?d0, ?d1]" and L = exampleExternals and now = exampleClock
      and apps = "[]"]
  have "route exampleExternals exampleAppLookup exampleClock [] ?req =
          (appsAfter [] ?req, [?d0, ?d1], Inr (ReplySuccess (length ?rs)))"
    by blast
  then show "route exampleExternals exampleAppLookup exampleClock [] ?req =
          ([''ABCDE-12345''], [?d0, ?d1], Inr (ReplySuccess 2))"
    by (simp add: sampleRequest_fields)
next
  let ?ua = "JStr ''Mozilla/5.0''" and ?ip = "JStr ''203.0.113.9''"
  let ?req = "sampleRequest sampleCrash ''ABCDE-12345''"
  let ?d0 = "\<lparr>rt_tstart = 1730000000000, rt_end = 1730000000000, http_initiator = ''error'',
        data_ua = ?ua, data_ip = ?ip,
        data_u = Some (JStr ''https://site.example/''),
        data_err = Some (JSURL_stringify exampleExternals
          (NormalizedError ''Crash'' ''m2r1bz7k'' ''oom''))\<rparr>"
  have v: "validated exampleAppLookup ?req"
    by (rule sampleRequest_validated) (simp_all add: sampleCrash_def)
  have e0: "handleReport exampleExternals sampleCrash ?ua ?ip (exampleClock 0) = Inr ?d0"
    by (simp add: sampleCrash_beacon sample_clock) (simp add: exampleClock_def)
  with v have "validated exampleAppLookup ?req \<and> (\<forall>rs. req_body ?req \<noteq> JArr rs) \<and>
      handleReport exampleExternals (req_body ?req) (req_user_agent ?req) (clientIp ?req)
        (exampleClock 0) = Inr ?d0"
    by (simp add: sampleRequest_fields) (simp add: sampleCrash_def)
  with batch_handled_count [where appLookup = exampleAppLookup and request = ?req
      and d = ?d0 and L = exampleExternals and now = exampleClock and apps = "[]"]
  have "route exampleExternals exampleAppLookup exampleClock [] ?req =
          (appsAfter [] ?req, [?d0], Inr (ReplySuccess 1))"
    by blast
  then show "route exampleExternals exampleAppLookup exampleClock [] ?req =
          ([''ABCDE-12345''], [?d0], Inr (ReplySuccess 1))"
    by (simp add: sampleRequest_fields)
qed

text \<open>
  C5 as stated fails: for the array of a crash report and a report typed \<open>csp\<close> without
  payload, the beacon of the first is sent, the second throws, and there is no reply
  \<open>handled: 2\<close>.
\<close>

theorem batch_count_counterexample:
  "route exampleExternals exampleAppLookup exampleClock []
     (sampleRequest (JArr [sampleCrash, sampleCspNoPayload]) ''ABCDE-12345'') =
   ([''ABCDE-12345''],
    [\<lparr>rt_tstart = 1730000000000, rt_end = 1730000000000, http_initiator = ''error'',
      data_ua = JStr ''Mozilla/5.0'', data_ip = JStr ''203.0.113.9'',
      data_u = Some (JStr ''https://site.example/''),
      data_err = Some (JSURL_stringify exampleExternals
        (NormalizedError ''Crash'' ''m2r1bz7k'' ''oom''))\<rparr>],
    Inl TypeError)"
proof -
  have "validated exampleAppLookup
          (sampleRequest (JArr [sampleCrash, sampleCspNoPayload]) ''ABCDE-12345'')"
    by (rule sampleRequest_validated) simp_all
  then show ?thesis
    by (simp add: route_batch [where rs = "[sampleCrash, sampleCspNoPayload]"]
        sampleRequest_fields sampleCspNoPayload_raises sampleCrash_beacon sample_clock)
      (simp add: exampleClock_def)
qed

text \<open>
  C6. Every beacon that handleReport sends at capture time \<open>t\<close> has \<open>rt.tstart\<close> and
  \<open>rt.end\<close> equal to \<open>t\<close> and \<open>http.initiator\<close> equal to \<open>"error"\<close>, with the
  request's user agent and address. For a report classified unknown the beacon holds
  the base context fields only, \<open>u\<close> and \<open>err\<close> absent, and the report is counted: the
  loop goes on with the count increased, and a request with this one report is
  answered \<open>handled: 1\<close>.
\<close>

theorem beacon_base_fields:
  "(\<forall>d. handleReport L body ua ip t = Inr d
        \<longrightarrow> rt_tstart d = t \<and> rt_end d = t \<and> http_initiator d = ''error'' \<and>
            data_ua d = ua \<and> data_ip d = ip)
   \<and> (body \<noteq> JUndefined \<and> body \<noteq> JNull \<and> classify_source_order body = Unknown
        \<longrightarrow> handleReport L body ua ip t = Inr (baseData ua ip t) \<and>
            data_u (baseData ua ip t) = None \<and> data_err (baseData ua ip t) = None \<and>
            handleReports L ua ip now i (body # rs) n =
              (case handleReports L ua ip now (Suc i) rs (Suc n) of
                 (sent, res) \<Rightarrow> (baseData ua ip (now i) # sent, res)))
   \<and> (validated appLookup request \<and> (\<forall>rs. req_body request \<noteq> JArr rs) \<and>
      classify_source_order (req_body request) = Unknown
        \<longrightarrow> route L appLookup now apps request =
              (appsAfter apps request,
               [baseData (req_user_agent request) (clientIp request) (now 0)],
               Inr (ReplySuccess 1)))"
proof (intro conjI allI impI)
  fix d
  assume "handleReport L body ua ip t = Inr d"
  then obtain p where "d = (baseData ua ip t)
               \<lparr>data_u := fst p, data_err := map_option (JSURL_stringify L) (snd p)\<rparr>"
    by (rule handleReport_InrE)
  then show "rt_tstart d = t" and "rt_end d = t" and "http_initiator d = ''error''"
    and "data_ua d = ua" and "data_ip d = ip"
    by (simp_all add: baseData_def)
next
  assume h: "body \<noteq> JUndefined \<and> body \<noteq> JNull \<and> classify_source_order body = Unknown"
  then have "processPayload (JSON_stringify L) body t = Inr (None, None)" for t
    by (simp add: processPayload_dispatch dispatch_def)
  then have u: "handleReport L body ua ip t = Inr (baseData ua ip t)" for t
    by (simp add: handleReport_payload baseData_def)
  show "handleReport L body ua ip t = Inr (baseData ua ip t)"
    by (rule u)
  show "data_u (baseData ua ip t) = None" and "data_err (baseData ua ip t) = None"
    by (simp_all add: baseData_def)
  show "handleReports L ua ip now i (body # rs) n =
              (case handleReports L ua ip now (Suc i) rs (Suc n) of
                 (sent, res) \<Rightarrow> (baseData ua ip (now i) # sent, res))"
    by (simp add: u)
next
  assume h: "validated appLookup request \<and> (\<forall>rs. req_body request \<noteq> JArr rs) \<and>
      classify_source_order (req_body request) = Unknown"
  then have "truthy (req_body request)"
    by (simp add: validated_def)
  then have nn: "req_body request \<noteq> JUndefined" "req_body request \<noteq> JNull"
    by auto
  with h have "processPayload (JSON_stringify L) (req_body request) (now 0) = Inr (None, None)"
    by (simp add: processPayload_dispatch dispatch_def)
  then have u: "handleReport L (req_body request) (req_user_agent request) (clientIp request) (now 0)
                = Inr (baseData (req_user_agent request) (clientIp request) (now 0))"
    by (simp add: handleReport_payload baseData_def)
  from h have "route L appLookup now apps request =
     (case req_body request of
        JArr reports \<Rightarrow>
          (case handleReports L (req_user_agent request) (clientIp request) now 0 reports 0 of
             (sent, Inl e) \<Rightarrow> (appsAfter apps request, sent, Inl e)
           | (sent, Inr n) \<Rightarrow> (appsAfter apps request, sent, Inr (ReplySuccess n)))
      | _ \<Rightarrow>
          (case handleReport L (req_body request) (req_user_agent request)
                  (clientIp request) (now 0) of
             Inl e \<Rightarrow> (appsAfter apps request, [], Inl e)
           | Inr d \<Rightarrow> (appsAfter apps request, [d], Inr (ReplySuccess 1))))"
    by (simp add: route_validated)
  with h u show "route L appLookup now apps request =
              (appsAfter apps request,
               [baseData (req_user_agent request) (clientIp request) (now 0)],
               Inr (ReplySuccess 1))"
    by (cases "req_body request") simp_all
qed

theorem beacon_base_fields_witness:
  "handleReport exampleExternals sampleUnknown (JStr ''Mozilla/5.0'') (JStr ''203.0.113.9'')
       1730000000000 =
     Inr \<lparr>rt_tstart = 1730000000000, rt_end = 1730000000000, http_initiator = ''error'',
          data_ua = JStr ''Mozilla/5.0'', data_ip = JStr ''203.0.113.9'',
          data_u = None, data_err = None\<rparr>
   \<and> rt_tstart (baseData (JStr ''Mozilla/5.0'') (JStr ''203.0.113.9'') 1730000000000) =
       1730000000000
   \<and> route exampleExternals exampleAppLookup exampleClock []
        (sampleRequest sampleUnknown ''ABCDE-12345'') =
       ([''ABCDE-12345''],
        [\<lparr>rt_tstart = 1730000000000, rt_end = 1730000000000, http_initiator = ''error'',
          data_ua = JStr ''Mozilla/5.0'', data_ip = JStr ''203.0.113.9'',
          data_u = None, data_err = None\<rparr>],
        Inr (ReplySuccess 1))"
proof -
  let ?ua = "JStr ''Mozilla/5.0''" and ?ip = "JStr ''203.0.113.9''"
  let ?req = "sampleRequest sampleUnknown ''ABCDE-12345''"
  note t = beacon_base_fields [where L = exampleExternals and body = sampleUnknown
      and ua = ?ua and ip = ?ip and t = 1730000000000 and now = exampleClock and i = 0
      and rs = "[]" and n = 0 and appLookup = exampleAppLookup and request = ?req
      and apps = "[]"]
  have nn: "sampleUnknown \<noteq> JUndefined \<and> sampleUnknown \<noteq> JNull \<and>
            classify_source_order sampleUnknown = Unknown"
    by (simp add: sampleUnknown_kind) (simp add: sampleUnknown_def)
  with t have u: "handleReport exampleExternals sampleUnknown ?ua ?ip 1730000000000 =
                    Inr (baseData ?ua ?ip 1730000000000)"
    by blast
  with t have f: "rt_tstart (baseData ?ua ?ip 1730000000000) = 1730000000000"
    by blast
  have v: "validated exampleAppLookup ?req \<and> (\<forall>rs. req_body ?req \<noteq> JArr rs) \<and>
           classify_source_order (req_body ?req) = Unknown"
    using sampleRequest_validated [of sampleUnknown]
    by (simp add: sampleUnknown_kind sampleRequest_def) (simp add: sampleUnknown_def)
  with t have "route exampleExternals exampleAppLookup exampleClock [] ?req =
       (appsAfter [] ?req, [baseData (req_user_agent ?req) (clientIp ?req) (exampleClock 0)],
        Inr (ReplySuccess 1))"
    by blast
  with u f show ?thesis
    by (simp add: baseData_def appsAfter_def sampleRequest_def clientIp_def exampleClock_def
        objectPrototypeNames_def)
qed

text \<open>
  C7 at the API key \<open>constructor\<close>, which is not in the credential table:
  \<open>appLookup["constructor"]\<close> is the function that every object inherits, a truthy
  value, so the request passes validation, the report is normalized, a beacon is sent
  and the reply is \<open>handled: 1\<close>. (For a key that is neither in the table nor
  inherited, and for a missing body or key, the reply is an Error and nothing is
  sent: \<open>route_request_level_errors\<close>.)
\<close>

theorem inherited_key_passes_validation:
  "map_of exampleAppLookup ''constructor'' = None
   \<and> route exampleExternals exampleAppLookup exampleClock []
       (sampleRequest sampleCrash ''constructor'') =
     ([],
      [\<lparr>rt_tstart = 1730000000000, rt_end = 1730000000000, http_initiator = ''error'',
        data_ua = JStr ''Mozilla/5.0'', data_ip = JStr ''203.0.113.9'',
        data_u = Some (JStr ''https://site.example/''),
        data_err = Some (JSURL_stringify exampleExternals
          (NormalizedError ''Crash'' ''m2r1bz7k'' ''oom''))\<rparr>],
      Inr (ReplySuccess 1))"
proof (intro conjI)
  show "map_of exampleAppLookup ''constructor'' = None"
    by (simp add: exampleAppLookup_def)
  have v: "validated exampleAppLookup (sampleRequest sampleCrash ''constructor'')"
    by (simp add: validated_def sampleRequest_def exampleAppLookup_def plainGet_def
        objectPrototypeNames_def sampleCrash_def)
  have "\<forall>rs. req_body (sampleRequest sampleCrash ''constructor'') \<noteq> JArr rs"
    by (simp add: sampleRequest_fields sampleCrash_def)
  with v show "route exampleExternals exampleAppLookup exampleClock []
       (sampleRequest sampleCrash ''constructor'') =
     ([],
      [\<lparr>rt_tstart = 1730000000000, rt_end = 1730000000000, http_initiator = ''error'',
        data_ua = JStr ''Mozilla/5.0'', data_ip = JStr ''203.0.113.9'',
        data_u = Some (JStr ''https://site.example/''),
        data_err = Some (JSURL_stringify exampleExternals
          (NormalizedError ''Crash'' ''m2r1bz7k'' ''oom''))\<rparr>],
      Inr (ReplySuccess 1))"
    by (simp add: route_single sampleRequest_fields sampleCrash_beacon sample_clock)
      (simp add: exampleClock_def)
qed

text \<open>
  C8. For every report of a recognized kind that handleReport turns into a beacon at
  capture time \<open>t\<close>, \<open>err\<close> is the encoding of a record whose \<open>v\<close> is 0, whose \<open>t\<close> is
  the title of the kind, one of the eight titles, and whose \<open>d\<close> is
  \<open>t.toString(36)\<close>, a base-36 numeral that denotes \<open>t\<close>.
\<close>

theorem error_record_invariants:
  assumes "body \<noteq> JUndefined" and "body \<noteq> JNull"
    and "kindTitle (classify_source_order body) = Some title"
    and "handleReport L body ua ip t = Inr d"
  shows "title \<in> set titles
     \<and> (\<exists>e kvs. processPayload (JSON_stringify L) body t = Inr (data_u d, Some e) \<and>
           data_err d = Some (JSURL_stringify L e) \<and>
           recordOf e = Some kvs \<and>
           map_of kvs ''v'' = Some (JNum 0) \<and>
           map_of kvs ''t'' = Some (JStr title) \<and>
           map_of kvs ''d'' = Some (JStr (numberToString 36 t)))
     \<and> parseBase36 (numberToString 36 t) = Some t"
proof (intro conjI)
  show "title \<in> set titles"
    using assms(3) by (rule kindTitle_titles)
  show "parseBase36 (numberToString 36 t) = Some t"
    by (rule parseBase36_numberToString)
  from assms(4) obtain p where p: "processPayload (JSON_stringify L) body t = Inr p"
    and d: "d = (baseData ua ip t)
               \<lparr>data_u := fst p, data_err := map_option (JSURL_stringify L) (snd p)\<rparr>"
    by (rule handleReport_InrE)
  from p assms(1,2) have "dispatch (JSON_stringify L) (classify_source_order body) body t = Inr p"
    by (simp add: processPayload_dispatch)
  then have "recordShape title t p"
    using assms(3) by (rule dispatch_shape)
  then obtain e kvs where "snd p = Some e" and "recordOf e = Some kvs"
    and "map_of kvs ''v'' = Some (JNum 0)" and "map_of kvs ''t'' = Some (JStr title)"
    and "map_of kvs ''d'' = Some (JStr (numberToString 36 t))"
    by (rule recordShapeE)
  with p d show "\<exists>e kvs. processPayload (JSON_stringify L) body t = Inr (data_u d, Some e) \<and>
           data_err d = Some (JSURL_stringify L e) \<and>
           recordOf e = Some kvs \<and>
           map_of kvs ''v'' = Some (JNum 0) \<and>
           map_of kvs ''t'' = Some (JStr title) \<and>
           map_of kvs ''d'' = Some (JStr (numberToString 36 t))"
    by (cases p) auto
qed

theorem error_record_invariants_witness:
  "''Crash'' \<in> set titles
   \<and> (\<exists>e kvs. processPayload (JSON_stringify exampleExternals) sampleCrash 1730000000000 =
                 Inr (Some (JStr ''https://site.example/''), Some e) \<and>
               recordOf e = Some kvs \<and>
               map_of kvs ''v'' = Some (JNum 0) \<and>
               map_of kvs ''t'' = Some (JStr ''Crash'') \<and>
               map_of kvs ''d'' = Some (JStr ''m2r1bz7k''))
   \<and> parseBase36 ''m2r1bz7k'' = Some 1730000000000"
proof -
  have nn: "sampleCrash \<noteq> JUndefined" "sampleCrash \<noteq> JNull"
    by (simp_all add: sampleCrash_def)
  have k: "kindTitle (classify_source_order sampleCrash) = Some ''Crash''"
    by (simp add: sampleCrash_kind)
  from error_record_invariants [OF nn k sampleCrash_beacon,
      where L = exampleExternals and ua = "JStr ''Mozilla/5.0''"
        and ip = "JStr ''203.0.113.9''" and t = 1730000000000]
  show ?thesis
    unfolding sample_timestamp by (simp only: data.simps) blast
qed

text \<open>
  C9. \<open>INCLUDE_FULL_REPORT\<close> is the constant false. So the result of handleReport
  does not depend on \<open>JSON.stringify\<close>, which only the detail branches call, and in
  every record handed to the encoder \<open>f\<close> is absent (Expect-CT) or undefined: no
  report of any kind gets a detail payload.
\<close>

theorem full_report_disabled:
  "\<not> INCLUDE_FULL_REPORT
   \<and> processPayload J body t = processPayload J' body t
   \<and> handleReport (L\<lparr>JSON_stringify := g\<rparr>) body ua ip t = handleReport L body ua ip t
   \<and> (\<forall>u e. processPayload J body t = Inr (u, Some e)
          \<longrightarrow> (\<exists>kvs. recordOf e = Some kvs \<and>
                 (map_of kvs ''f'' = None \<or> map_of kvs ''f'' = Some JUndefined)))"
proof (intro conjI allI impI)
  show "\<not> INCLUDE_FULL_REPORT"
    by (simp add: INCLUDE_FULL_REPORT_def)
  show "processPayload J body t = processPayload J' body t"
    by (rule processPayload_json_stringify)
  have "processPayload g body t = processPayload (JSON_stringify L) body t"
    by (rule processPayload_json_stringify)
  then show "handleReport (L\<lparr>JSON_stringify := g\<rparr>) body ua ip t = handleReport L body ua ip t"
    by (simp add: handleReport_payload)
  fix u e
  assume "processPayload J body t = Inr (u, Some e)"
  then obtain title where "recordShape title t (u, Some e)"
    using processPayload_shape by blast
  then show "\<exists>kvs. recordOf e = Some kvs \<and>
                 (map_of kvs ''f'' = None \<or> map_of kvs ''f'' = Some JUndefined)"
    by (elim recordShapeE) auto
qed

theorem full_report_disabled_witness:
  "\<not> INCLUDE_FULL_REPORT
   \<and> handleReport (exampleExternals\<lparr>JSON_stringify := (\<lambda>v. JUndefined)\<rparr>) sampleCrash
         (JStr ''Mozilla/5.0'') (JStr ''203.0.113.9'') 1730000000000 =
       handleReport exampleExternals sampleCrash
         (JStr ''Mozilla/5.0'') (JStr ''203.0.113.9'') 1730000000000
   \<and> (\<exists>kvs. recordOf (NormalizedError ''Crash'' ''m2r1bz7k'' ''oom'') = Some kvs \<and>
             (map_of kvs ''f'' = None \<or> map_of kvs ''f'' = Some JUndefined))"
proof -
  note t = full_report_disabled [where J = "JSON_stringify exampleExternals"
      and body = sampleCrash and t = 1730000000000 and J' = "JSON_stringify exampleExternals"
      and L = exampleExternals and g = "\<lambda>v. JUndefined"
      and ua = "JStr ''Mozilla/5.0''" and ip = "JStr ''203.0.113.9''"]
  have "processPayload (JSON_stringify exampleExternals) sampleCrash 1730000000000 =
          Inr (Some (JStr ''https://site.example/''),
               Some (NormalizedError ''Crash'' ''m2r1bz7k'' ''oom''))"
    by (simp add: sampleCrash_payload sample_timestamp)
  with t show ?thesis
    by blast
qed

text \<open>
  C10. Scheme stripping, for the CSP \<open>blocked-uri\<close> and the XSS \<open>request-url\<close>, is
  \<open>replace("http://", "")\<close> followed by \<open>replace("https://", "")\<close>. Each removes the
  first occurrence of its pattern wherever it starts, not only at the start of the
  string, and leaves a string without the pattern unchanged; so a string that holds
  neither pattern (a \<open>data:\<close> URI, say) passes through unchanged.
\<close>

theorem scheme_stripping_unanchored:
  "(body \<noteq> JUndefined \<and> body \<noteq> JNull \<and> field body ''xss-report'' = xss \<and>
    xss \<noteq> JUndefined \<and> xss \<noteq> JNull \<and> field xss ''request-url'' = JStr s
      \<longrightarrow> handleReport_xss J body t =
            Inr (None, Some (NormalizedError ''XSS Report'' (numberToString 36 t)
              (replace (replace s ''http://'' []) ''https://'' []))))
   \<and> (body \<noteq> JUndefined \<and> body \<noteq> JNull \<and>
      csp = (if truthy (field body ''csp-report'') then field body ''csp-report''
             else field body ''body'') \<and>
      csp \<noteq> JUndefined \<and> csp \<noteq> JNull \<and> field csp ''blocked-uri'' = JStr blocked \<and>
      (if truthy (field csp ''effective-directive'') then field csp ''effective-directive''
       else field csp ''violated-directive'') = JStr directive
      \<longrightarrow> handleReport_csp J body t =
            Inr (Some (field csp ''document-uri''),
                 Some (NormalizedError ''Content Security Policy'' (numberToString 36 t)
                   (truncateAt CHR '' '' directive @ '': '' @
                    truncateAt CHR ''/''
                      (replace (replace blocked ''http://'' []) ''https://'' [])))))
   \<and> (i \<le> length x \<and> occursAt pat x i \<and> (\<forall>j<i. \<not> occursAt pat x j)
      \<longrightarrow> replace x pat [] = take i x @ drop (i + length pat) x)
   \<and> ((\<forall>i\<le>length x. \<not> occursAt pat x i) \<longrightarrow> replace x pat [] = x)
   \<and> ((\<forall>i\<le>length x. \<not> occursAt ''http://'' x i \<and> \<not> occursAt ''https://'' x i)
      \<longrightarrow> replace (replace x ''http://'' []) ''https://'' [] = x)"
proof (intro conjI impI)
  assume "body \<noteq> JUndefined \<and> body \<noteq> JNull \<and> field body ''xss-report'' = xss \<and>
    xss \<noteq> JUndefined \<and> xss \<noteq> JNull \<and> field xss ''request-url'' = JStr s"
  then show "handleReport_xss J body t =
            Inr (None, Some (NormalizedError ''XSS Report'' (numberToString 36 t)
              (replace (replace s ''http://'' []) ''https://'' [])))"
    by (simp add: xss_branch stripScheme_replace [symmetric])
next
  assume h: "body \<noteq> JUndefined \<and> body \<noteq> JNull \<and>
      csp = (if truthy (field body ''csp-report'') then field body ''csp-report''
             else field body ''body'') \<and>
      csp \<noteq> JUndefined \<and> csp \<noteq> JNull \<and> field csp ''blocked-uri'' = JStr blocked \<and>
      (if truthy (field csp ''effective-directive'') then field csp ''effective-directive''
       else field csp ''violated-directive'') = JStr directive"
  have "handleReport_csp J body t =
            Inr (Some (field csp ''document-uri''),
                 Some (NormalizedError ''Content Security Policy'' (numberToString 36 t)
                   (truncateAt CHR '' '' directive @ '': '' @
                    truncateAt CHR ''/'' (stripScheme blocked))))"
    by (rule csp_branch) (use h in blast)+
  then show "handleReport_csp J body t =
            Inr (Some (field csp ''document-uri''),
                 Some (NormalizedError ''Content Security Policy'' (numberToString 36 t)
                   (truncateAt CHR '' '' directive @ '': '' @
                    truncateAt CHR ''/''
                      (replace (replace blocked ''http://'' []) ''https://'' []))))"
    by (simp only: stripScheme_replace)
next
  assume "i \<le> length x \<and> occursAt pat x i \<and> (\<forall>j<i. \<not> occursAt pat x j)"
  then show "replace x pat [] = take i x @ drop (i + length pat) x"
    by (simp add: replace_first)
next
  assume "\<forall>i\<le>length x. \<not> occursAt pat x i"
  then show "replace x pat [] = x"
    by (rule replace_none)
next
  assume h: "\<forall>i\<le>length x. \<not> occursAt ''http://'' x i \<and> \<not> occursAt ''https://'' x i"
  then have "replace x ''http://'' [] = x"
    by (intro replace_none) blast
  moreover from h have "replace x ''https://'' [] = x"
    by (intro replace_none) blast
  ultimately show "replace (replace x ''http://'' []) ''https://'' [] = x"
    by simp
qed

theorem scheme_stripping_unanchored_witness:
  "handleReport_xss (JSON_stringify exampleExternals) sampleXss 0 =
     Inr (None, Some (NormalizedError ''XSS Report'' ''0'' ''ftp://a.example/?next=b.example/''))
   \<and> replace ''ftp://a.example/?next=http://b.example/'' ''http://'' [] =
       ''ftp://a.example/?next=b.example/''
   \<and> replace (replace ''data:text/html,hi'' ''http://'' []) ''https://'' [] =
       ''data:text/html,hi''"
proof (intro conjI)
  let ?s = "''ftp://a.example/?next=http://b.example/''"
  let ?xss = "JObj [(''request-url'', JStr ?s)]"
  have r: "replace (replace ?s ''http://'' []) ''https://'' [] = ''ftp://a.example/?next=b.example/''"
    by (simp add: replace_removeFirstOccurrence eval_strings)
  have d: "numberToString 36 0 = ''0''"
    by (simp add: eval_numbers)
  have "body \<noteq> JUndefined \<and> body \<noteq> JNull \<and> field body ''xss-report'' = ?xss \<and>
        ?xss \<noteq> JUndefined \<and> ?xss \<noteq> JNull \<and> field ?xss ''request-url'' = JStr ?s"
    if "body = sampleXss" for body
    using that by (simp add: sampleXss_def field_def)
  with scheme_stripping_unanchored [of sampleXss ?xss ?s "JSON_stringify exampleExternals" 0]
  show "handleReport_xss (JSON_stringify exampleExternals) sampleXss 0 =
     Inr (None, Some (NormalizedError ''XSS Report'' ''0'' ''ftp://a.example/?next=b.example/''))"
    unfolding r d by blast
next
  let ?s = "''ftp://a.example/?next=http://b.example/''"
  have f: "firstOccurrence ''http://'' ?s = Some 22"
    by (simp add: eval_strings)
  have "22 \<le> length ?s \<and> occursAt ''http://'' ?s 22 \<and> (\<forall>j<22. \<not> occursAt ''http://'' ?s j)"
    by (rule firstOccurrence_SomeD [OF f])
  with scheme_stripping_unanchored [where x = ?s and pat = "''http://''" and i = 22]
  have "replace ?s ''http://'' [] = take 22 ?s @ drop (22 + length ''http://'') ?s"
    by blast
  then show "replace ?s ''http://'' [] = ''ftp://a.example/?next=b.example/''"
    by simp
next
  let ?x = "''data:text/html,hi''"
  have "firstOccurrence ''http://'' ?x = None" and "firstOccurrence ''https://'' ?x = None"
    by (simp_all add: eval_strings)
  then have "\<forall>i\<le>length ?x. \<not> occursAt ''http://'' ?x i \<and> \<not> occursAt ''https://'' ?x i"
    using firstOccurrence_NoneD by blast
  with scheme_stripping_unanchored [where x = ?x]
  show "replace (replace ?x ''http://'' []) ''https://'' [] = ?x"
    by blast
qed

end
